theory Spec2Isabelle
  imports Main
begin

section \<open>The compile function of the worker\<close>

text \<open>
  The worker's \<^verbatim>\<open>compile(code, config)\<close> wraps one call of the external compiler
  \<^verbatim>\<open>Babel.transform\<close>. Strings are lists of 8-bit characters, read as code units;
  code units above 0xFF are outside the model. A JavaScript \<^verbatim>\<open>null\<close> or
  \<^verbatim>\<open>undefined\<close> in a nullable position is \<open>None\<close>.
\<close>

subsection \<open>String built-ins: split and trim\<close>

text \<open>
  \<^verbatim>\<open>s.split(",")\<close>: the pieces of \<open>s\<close> between the separators, in order; a string
  without separator is its own single piece, the empty string included.
\<close>

fun split :: "char \<Rightarrow> string \<Rightarrow> string list" where
  "split sep [] = [[]]"
| "split sep (c # cs) =
     (if c = sep then [] # split sep cs
      else (case split sep cs of
              [] \<Rightarrow> [[c]]
            | piece # pieces \<Rightarrow> (c # piece) # pieces))"

text \<open>
  The code units below 0x100 that \<^verbatim>\<open>trim()\<close> strips: the ECMAScript white space
  (TAB, VT, FF, SP, NBSP) and line terminators (LF, CR).
\<close>

definition isWhiteSpace :: "char \<Rightarrow> bool" where
  "isWhiteSpace c \<longleftrightarrow> (of_char c :: nat) \<in> {9, 10, 11, 12, 13, 32, 160}"

definition trim :: "string \<Rightarrow> string" where
  "trim s = rev (dropWhile isWhiteSpace (rev (dropWhile isWhiteSpace s)))"

subsection \<open>Data\<close>

text \<open>A thrown \<^verbatim>\<open>Error\<close>: its \<^verbatim>\<open>name\<close> and \<^verbatim>\<open>message\<close>.\<close>

record js_error =
  err_name :: string
  message :: string

text \<open>\<^verbatim>\<open>Error.prototype.toString\<close>, as the template literal of the log line calls it.\<close>

definition error_toString :: "js_error \<Rightarrow> string" where
  "error_toString e =
     (if err_name e = [] then message e
      else if message e = [] then err_name e
      else err_name e @ '': '' @ message e)"

text \<open>\<^verbatim>\<open>EnvConfig\<close>, as far as \<^verbatim>\<open>compile\<close> reads it.\<close>

record env_config =
  browsers :: string
  electron :: string
  isElectronEnabled :: bool
  isEnvPresetEnabled :: bool
  isNodeEnabled :: bool
  node :: string

text \<open>The \<^verbatim>\<open>targets\<close> object; an absent key is \<open>None\<close>.\<close>

record targets =
  tg_browsers :: "string list option"
  tg_electron :: "string option"
  tg_node :: "string option"

text \<open>
  The options of the env preset. \<open>onPresetBuild\<close> tells whether the callback is a closure
  (\<open>True\<close>) or \<^verbatim>\<open>null\<close>.
\<close>

record env_options =
  onPresetBuild :: bool
  targets :: targets
  useBuiltIns :: bool

text \<open>An entry of a preset list: a name, or the pair \<^verbatim>\<open>["env", options]\<close>.\<close>

datatype preset = Name string | WithOptions string env_options

text \<open>\<^verbatim>\<open>CompileConfig\<close>; \<open>cfg_envConfig\<close> is \<open>None\<close> for \<^verbatim>\<open>null\<close>.\<close>

record compile_config =
  cfg_debugEnvPreset :: bool
  cfg_envConfig :: "env_config option"
  cfg_evaluate :: bool
  cfg_presets :: "preset list"
  cfg_sourceMap :: bool
  cfg_useBuiltIns :: bool

text \<open>The options object handed to \<^verbatim>\<open>Babel.transform\<close>.\<close>

record transform_options =
  babelrc :: bool
  filename :: string
  opt_presets :: "preset list"
  opt_sourceMap :: bool

text \<open>What \<^verbatim>\<open>Babel.transform\<close> returns; \<open>'v\<close> is the type of its untyped values.\<close>

record 'v transformed =
  t_code :: string
  t_ast :: 'v
  t_map :: 'v

text \<open>The type \<^verbatim>\<open>Return\<close> of \<^verbatim>\<open>compile\<close>.\<close>

record compile_return =
  compiled :: "string option"
  transformTime :: "int option"
  ast :: "string option"
  compileErrorMessage :: "string option"
  envPresetDebugInfo :: "string option"
  sourceMap :: "string option"

text \<open>
  The collaborators of \<^verbatim>\<open>compile\<close> that are not part of the repository's sources.
  \<^item> \<open>Babel_transform code options\<close> either throws (\<open>Inl\<close>) or returns (\<open>Inr\<close>); with it come
    the calls it made to \<^verbatim>\<open>onPresetBuild\<close> callbacks while it ran, each as the index of the
    preset entry that owns the callback and the argument passed.
  \<^item> \<open>JSON_stringify value indent\<close> throws, or returns a string or \<^verbatim>\<open>undefined\<close>.
  \<^item> \<open>getDebugInfoFromEnvResult\<close> is imported from \<^verbatim>\<open>replUtils\<close>.
  \<^item> \<open>Date_now k\<close> is the \<open>k\<close>-th reading of the clock during one call of \<^verbatim>\<open>compile\<close>.
\<close>

record 'v externals =
  Babel_transform ::
    "string \<Rightarrow> transform_options \<Rightarrow> (nat \<times> 'v) list \<times> (js_error + 'v transformed)"
  JSON_stringify :: "'v \<Rightarrow> nat \<Rightarrow> js_error + string option"
  getDebugInfoFromEnvResult :: "'v \<Rightarrow> string"
  Date_now :: "nat \<Rightarrow> int"

subsection \<open>The function\<close>

text \<open>Lines 29 to 41: the \<^verbatim>\<open>targets\<close> object built from the env config.\<close>

definition compile_targets :: "env_config \<Rightarrow> targets" where
  "compile_targets envConfig =
     \<lparr> tg_browsers =
         (if browsers envConfig \<noteq> []
          then Some (filter (\<lambda>v. v \<noteq> []) (map trim (split CHR '','' (browsers envConfig))))
          else None),
       tg_electron =
         (if isElectronEnabled envConfig then Some (electron envConfig) else None),
       tg_node = (if isNodeEnabled envConfig then Some (node envConfig) else None) \<rparr>"

text \<open>Lines 45 to 56: the \<^verbatim>\<open>options\<close> object.\<close>

definition compile_options :: "compile_config \<Rightarrow> env_config \<Rightarrow> env_options" where
  "compile_options config envConfig =
     \<lparr> onPresetBuild = cfg_debugEnvPreset config,
       targets = compile_targets envConfig,
       useBuiltIns = (\<not> cfg_evaluate config \<and> cfg_useBuiltIns config) \<rparr>"

text \<open>
  Lines 28 to 59: the config object as the \<^verbatim>\<open>if\<close> statement leaves it. The
  \<^verbatim>\<open>push\<close> of line 58 changes the caller's \<^verbatim>\<open>presets\<close> array in place.
\<close>

definition push_env_preset :: "compile_config \<Rightarrow> compile_config" where
  "push_env_preset config =
     (case cfg_envConfig config of
        None \<Rightarrow> config
      | Some envConfig \<Rightarrow>
          if isEnvPresetEnabled envConfig
          then config\<lparr> cfg_presets :=
                 cfg_presets config @ [WithOptions ''env'' (compile_options config envConfig)] \<rparr>
          else config)"

text \<open>Lines 63 to 68: the second argument of \<^verbatim>\<open>Babel.transform\<close>.\<close>

definition babel_options :: "compile_config \<Rightarrow> transform_options" where
  "babel_options config =
     \<lparr> babelrc = False, filename = ''repl'',
       opt_presets = cfg_presets config, opt_sourceMap = cfg_sourceMap config \<rparr>"

text \<open>
  Lines 45 to 50: the value of the local \<^verbatim>\<open>envPresetDebugInfo\<close> once the transform has
  returned. Only the closure made by this call assigns it; the closure sits in the entry
  this call pushed, at index \<open>own\<close>, and every call of it overwrites the variable.
\<close>

definition captured_debugInfo ::
  "'v externals \<Rightarrow> compile_config \<Rightarrow> (nat \<times> 'v) list \<Rightarrow> string option" where
  "captured_debugInfo ext config calls =
     (case cfg_envConfig config of
        None \<Rightarrow> None
      | Some envConfig \<Rightarrow>
          if isEnvPresetEnabled envConfig \<and> cfg_debugEnvPreset config
          then (case filter (\<lambda>call. fst call = length (cfg_presets config)) calls of
                  [] \<Rightarrow> None
                | c # cs \<Rightarrow> Some (getDebugInfoFromEnvResult ext (snd (last (c # cs)))))
          else None)"

text \<open>Lines 83 to 88: the locals after the \<^verbatim>\<open>catch\<close> block.\<close>

definition caught :: "js_error \<Rightarrow> compile_return" where
  "caught error =
     \<lparr> compiled = None, transformTime = None, ast = None,
       compileErrorMessage = Some (message error),
       envPresetDebugInfo = None, sourceMap = None \<rparr>"

text \<open>
  \<^verbatim>\<open>compile(code, config)\<close>. The result is the returned object, the caller's config
  object as the call leaves it, and the lines written with \<^verbatim>\<open>console.error\<close>.
\<close>

definition compile ::
  "'v externals \<Rightarrow> string \<Rightarrow> compile_config \<Rightarrow> compile_return \<times> compile_config \<times> string list"
  where
  "compile ext code config =
     (let config' = push_env_preset config;
          start = Date_now ext 0;
          (calls, completion) = Babel_transform ext code (babel_options config')
      in case completion of
           Inl error \<Rightarrow> (caught error, config', [])
         | Inr transformed \<Rightarrow>
             (let time = Date_now ext 1 - start
              in case JSON_stringify ext (t_ast transformed) 2 of
                   Inl error \<Rightarrow> (caught error, config', [])
                 | Inr astJson \<Rightarrow>
                     (let result =
                            \<lparr> compiled = Some (t_code transformed),
                              transformTime = Some time,
                              ast = astJson,
                              compileErrorMessage = None,
                              envPresetDebugInfo = captured_debugInfo ext config calls,
                              sourceMap = None \<rparr>
                      in if cfg_sourceMap config'
                         then (case JSON_stringify ext (t_map transformed) 0 of
                                 Inl error \<Rightarrow>
                                   (result, config',
                                    [''Source Map generation failed: '' @ error_toString error])
                               | Inr mapJson \<Rightarrow> (result\<lparr> sourceMap := mapJson \<rparr>, config', []))
                         else (result, config', []))))"

section \<open>The Repl component\<close>

text \<open>
  The component of \<^verbatim>\<open>Repl.js\<close>: its React state, its two instance fields and the
  methods that decide when plugins are loaded and when a compile request is sent.
  \<^verbatim>\<open>setState\<close> is an immediate update of the state followed by its callback. What a
  method asks of its collaborators (the worker, the loader of the polyfill, storage) is
  returned as a list of effects, in the order of the calls.
\<close>

subsection \<open>Data\<close>

text \<open>\<^verbatim>\<open>PluginState\<close>; of \<^verbatim>\<open>config\<close> the Repl reads the label only.\<close>

record plugin_state =
  config_label :: string
  isEnabled :: bool
  isLoaded :: bool
  isLoading :: bool
  didError :: bool

text \<open>
  \<^verbatim>\<open>PluginStateMap\<close>, an object keyed by strings: the entries in the order of
  \<^verbatim>\<open>Object.keys\<close> and of \<^verbatim>\<open>for ... in\<close>. The keys of an object are distinct.
\<close>

type_synonym plugin_state_map = "(string \<times> plugin_state) list"

text \<open>The functions that \<^verbatim>\<open>_compile\<close> may pass on to \<^verbatim>\<open>setState\<close>.\<close>

datatype callback = CheckForUnloadedPlugins | PersistState

text \<open>
  The calls that leave the component:
  \<^item> \<^verbatim>\<open>this._workerApi.compile(code, config)\<close>, with the callback that the \<^verbatim>\<open>then\<close>
    of line 370 will hand to \<^verbatim>\<open>setState\<close>;
  \<^item> \<^verbatim>\<open>this._workerApi.loadPlugin(plugins[key])\<close>;
  \<^item> \<^verbatim>\<open>this._workerApi.loadPlugin(envPresetState)\<close>;
  \<^item> \<^verbatim>\<open>loadPlugin(runtimePolyfillState, ...)\<close> on the UI thread;
  \<^item> the writes of \<^verbatim>\<open>_persistState\<close> to storage and to the URL (payload not modelled).
\<close>

datatype effect =
    WorkerCompile string compile_config callback
  | WorkerLoadPlugin string
  | WorkerLoadEnvPreset
  | LoadRuntimePolyfill
  | Persist

text \<open>Reading a property of \<^verbatim>\<open>undefined\<close>.\<close>

datatype thrown = TypeError

text \<open>
  The state of the component under the names of \<^verbatim>\<open>State\<close> (the field
  \<^verbatim>\<open>babel\<close>, read by \<^verbatim>\<open>render\<close> and \<^verbatim>\<open>_persistState\<close> only, is left out),
  then \<^verbatim>\<open>_numLoadingPlugins\<close> and the timer of the debounced \<^verbatim>\<open>_compileToState\<close>:
  the milliseconds left and the argument of its last call, when a call is pending.
\<close>

record repl =
  st_builtIns :: bool
  st_code :: string
  st_compiled :: "string option"
  st_ast :: "string option"
  st_transformTime :: "int option"
  st_compileErrorMessage :: "string option"
  st_debugEnvPreset :: bool
  st_envConfig :: env_config
  st_envPresetDebugInfo :: "string option"
  st_envPresetState :: plugin_state
  st_evalErrorMessage :: "string option"
  st_isEnvPresetTabExpanded :: bool
  st_isPresetsTabExpanded :: bool
  st_isSettingsTabExpanded :: bool
  st_isSidebarExpanded :: bool
  st_lineWrap :: bool
  st_plugins :: plugin_state_map
  st_presets :: plugin_state_map
  st_runtimePolyfillState :: plugin_state
  st_sourceMap :: "string option"
  numLoadingPlugins :: int
  compileToState_timer :: "(nat \<times> string) option"

definition DEBOUNCE_DELAY :: nat where
  "DEBOUNCE_DELAY = 500"

subsection \<open>Building a compile request\<close>

text \<open>\<^verbatim>\<open>_presetsToArray\<close>: the labels of the presets that are enabled and loaded.\<close>

definition presetsToArray :: "plugin_state_map \<Rightarrow> string list" where
  "presetsToArray presets =
     map (\<lambda>key. case map_of presets key of None \<Rightarrow> [] | Some p \<Rightarrow> config_label p)
       (filter (\<lambda>key. case map_of presets key of
                         None \<Rightarrow> False
                       | Some p \<Rightarrow> isEnabled p \<and> isLoaded p)
          (map fst presets))"

text \<open>
  Lines 353 to 369: the config object of the request; \<open>babili\<close> is
  \<^verbatim>\<open>state.plugins["babili-standalone"]\<close>.
\<close>

definition request_config :: "repl \<Rightarrow> plugin_state \<Rightarrow> compile_config" where
  "request_config state babili =
     \<lparr> cfg_debugEnvPreset = st_debugEnvPreset state,
       cfg_envConfig =
         (if isLoaded (st_envPresetState state) then Some (st_envConfig state) else None),
       cfg_evaluate =
         (isEnabled (st_runtimePolyfillState state) \<and> isLoaded (st_runtimePolyfillState state)),
       cfg_presets =
         map Name (presetsToArray (st_presets state) @
                   (if isEnabled babili \<and> isLoaded babili then [''babili''] else [])),
       cfg_sourceMap = isEnabled (st_runtimePolyfillState state),
       cfg_useBuiltIns = st_builtIns state \<rparr>"

subsection \<open>Loading plugins\<close>

text \<open>
  Lines 262 to 282, the loop over the keys of \<^verbatim>\<open>plugins\<close>: the counter of loads in
  flight and the load requests. (The flags that \<^verbatim>\<open>WorkerApi.loadPlugin\<close> sets on the
  plugin object are not in the sources; the state is the one the Repl's own code leaves.)
\<close>

fun load_unloaded :: "plugin_state_map \<Rightarrow> string list \<Rightarrow> int \<Rightarrow> int \<times> effect list" where
  "load_unloaded plugins [] n = (n, [])"
| "load_unloaded plugins (key # keys) n =
     (case map_of plugins key of
        None \<Rightarrow> load_unloaded plugins keys n
      | Some plugin \<Rightarrow>
          if isEnabled plugin \<and> \<not> isLoaded plugin \<and> \<not> isLoading plugin
          then (case load_unloaded plugins keys (n + 1) of
                  (n', loads) \<Rightarrow> (n', WorkerLoadPlugin key # loads))
          else load_unloaded plugins keys n)"

text \<open>\<^verbatim>\<open>_checkForUnloadedPlugins\<close>.\<close>

definition checkForUnloadedPlugins :: "repl \<Rightarrow> repl \<times> effect list" where
  "checkForUnloadedPlugins state =
     (case load_unloaded (st_plugins state) (map fst (st_plugins state))
             (numLoadingPlugins state) of
        (n, loads) \<Rightarrow>
          (state\<lparr> numLoadingPlugins := n \<rparr>,
           loads @
           (if isEnabled (st_runtimePolyfillState state) \<and>
               \<not> isLoaded (st_runtimePolyfillState state)
            then [LoadRuntimePolyfill] else []) @
           (if isEnvPresetEnabled (st_envConfig state) \<and> \<not> isLoaded (st_envPresetState state)
            then [WorkerLoadEnvPreset] else [])))"

subsection \<open>Compiling\<close>

text \<open>
  \<^verbatim>\<open>_persistState\<close>: it reads \<^verbatim>\<open>babili.isEnabled\<close> before it writes, which throws
  when the plugins have no key \<^verbatim>\<open>babili-standalone\<close>.
\<close>

definition persistState :: "repl \<Rightarrow> effect list \<times> thrown option" where
  "persistState state =
     (case map_of (st_plugins state) ''babili-standalone'' of
        None \<Rightarrow> ([], Some TypeError)
      | Some babili \<Rightarrow> ([Persist], None))"

text \<open>The callback of a \<^verbatim>\<open>setState\<close>, run on the updated state.\<close>

definition run_callback :: "callback \<Rightarrow> repl \<Rightarrow> repl \<times> effect list \<times> thrown option" where
  "run_callback cb state =
     (case cb of
        CheckForUnloadedPlugins \<Rightarrow>
          (case checkForUnloadedPlugins state of (state', es) \<Rightarrow> (state', es, None))
      | PersistState \<Rightarrow> (case persistState state of (es, t) \<Rightarrow> (state, es, t)))"

text \<open>
  \<^verbatim>\<open>_compile(code, setStateCallback)\<close>: the state, the effects and the exception, if
  one ends the call. A string is falsy when it is empty.
\<close>

definition Repl_compile ::
  "string \<Rightarrow> callback \<Rightarrow> repl \<Rightarrow> repl \<times> effect list \<times> thrown option" where
  "Repl_compile code setStateCallback state =
     (if code = []
      then run_callback setStateCallback
             (state\<lparr> st_compiled := None, st_ast := None, st_transformTime := None,
                     st_compileErrorMessage := None, st_envPresetDebugInfo := None,
                     st_evalErrorMessage := None, st_sourceMap := None \<rparr>)
      else (case map_of (st_plugins state) ''babili-standalone'' of
              None \<Rightarrow> (state, [], Some TypeError)
            | Some babili \<Rightarrow>
                (state, [WorkerCompile code (request_config state babili) setStateCallback],
                 None)))"

text \<open>
  Line 370, \<^verbatim>\<open>result => this.setState(result, setStateCallback)\<close>: what the component
  does with the answer of the worker to a compile request.
\<close>

definition compile_then ::
  "compile_return \<Rightarrow> callback \<Rightarrow> repl \<Rightarrow> repl \<times> effect list \<times> thrown option" where
  "compile_then result setStateCallback state =
     run_callback setStateCallback
       (state\<lparr> st_compiled := compiled result, st_transformTime := transformTime result,
               st_ast := ast result, st_compileErrorMessage := compileErrorMessage result,
               st_envPresetDebugInfo := envPresetDebugInfo result,
               st_sourceMap := sourceMap result \<rparr>)"

text \<open>Lines 247 to 249 of \<^verbatim>\<open>_setupBabel\<close>, once Babel is loaded.\<close>

definition setupBabel_loaded :: "repl \<Rightarrow> repl \<times> effect list \<times> thrown option" where
  "setupBabel_loaded state = Repl_compile (st_code state) CheckForUnloadedPlugins state"

subsection \<open>Debouncing\<close>

text \<open>
  \<^verbatim>\<open>_compileToState\<close> is \<^verbatim>\<open>debounce(f, DEBOUNCE_DELAY)\<close> of lodash with its default
  options: a call remembers its argument and restarts the timer; when the timer runs
  out, \<open>f\<close> is called once, with the argument of the last call.
\<close>

definition compileToState :: "string \<Rightarrow> repl \<Rightarrow> repl" where
  "compileToState code state = state\<lparr> compileToState_timer := Some (DEBOUNCE_DELAY, code) \<rparr>"

text \<open>\<^verbatim>\<open>_updateCode\<close>.\<close>

definition updateCode :: "string \<Rightarrow> repl \<Rightarrow> repl" where
  "updateCode code state = compileToState code (state\<lparr> st_code := code \<rparr>)"

text \<open>
  The passing of \<open>ms\<close> milliseconds without any other event: a pending call of
  \<^verbatim>\<open>_compileToState\<close> whose time has come runs line 377.
\<close>

definition elapse :: "nat \<Rightarrow> repl \<Rightarrow> repl \<times> effect list \<times> thrown option" where
  "elapse ms state =
     (case compileToState_timer state of
        None \<Rightarrow> (state, [], None)
      | Some (left, code) \<Rightarrow>
          if ms < left
          then (state\<lparr> compileToState_timer := Some (left - ms, code) \<rparr>, [], None)
          else Repl_compile code PersistState (state\<lparr> compileToState_timer := None \<rparr>))"

subsection \<open>Reacting to settings and to finished loads\<close>

text \<open>\<^verbatim>\<open>_presetsUpdatedSetStateCallback\<close>.\<close>

definition presetsUpdatedSetStateCallback :: "repl \<Rightarrow> repl \<times> effect list" where
  "presetsUpdatedSetStateCallback state =
     (case checkForUnloadedPlugins state of
        (state', es) \<Rightarrow> (updateCode (st_code state') state', es))"

text \<open>
  Lines 269 to 279: the \<^verbatim>\<open>then\<close> of a plugin load. \<^verbatim>\<open>plugins\<close> is the object that the
  state already holds, so the \<^verbatim>\<open>setState\<close> of line 273 changes no value.
\<close>

definition loadPlugin_then :: "bool \<Rightarrow> repl \<Rightarrow> repl" where
  "loadPlugin_then success state =
     (let state' = state\<lparr> numLoadingPlugins := numLoadingPlugins state - 1 \<rparr>
      in if numLoadingPlugins state' = 0 then updateCode (st_code state') state' else state')"

text \<open>Line 328: the \<^verbatim>\<open>then\<close> of \<^verbatim>\<open>registerEnvPreset\<close>.\<close>

definition registerEnvPreset_then :: "repl \<Rightarrow> repl" where
  "registerEnvPreset_then state = updateCode (st_code state) state"

text \<open>The own properties of \<^verbatim>\<open>this.state\<close>, and those among them that hold a boolean.\<close>

definition state_keys :: "string list" where
  "state_keys =
     [''babel'', ''builtIns'', ''code'', ''compiled'', ''ast'', ''transformTime'',
      ''compileErrorMessage'', ''debugEnvPreset'', ''envConfig'', ''envPresetDebugInfo'',
      ''envPresetState'', ''evalErrorMessage'', ''isEnvPresetTabExpanded'',
      ''isPresetsTabExpanded'', ''isSettingsTabExpanded'', ''isSidebarExpanded'',
      ''lineWrap'', ''plugins'', ''presets'', ''runtimePolyfillState'', ''sourceMap'']"

definition set_flag :: "string \<Rightarrow> bool \<Rightarrow> repl \<Rightarrow> repl option" where
  "set_flag name v state =
     (if name = ''builtIns'' then Some (state\<lparr> st_builtIns := v \<rparr>)
      else if name = ''debugEnvPreset'' then Some (state\<lparr> st_debugEnvPreset := v \<rparr>)
      else if name = ''isEnvPresetTabExpanded''
        then Some (state\<lparr> st_isEnvPresetTabExpanded := v \<rparr>)
      else if name = ''isPresetsTabExpanded'' then Some (state\<lparr> st_isPresetsTabExpanded := v \<rparr>)
      else if name = ''isSettingsTabExpanded''
        then Some (state\<lparr> st_isSettingsTabExpanded := v \<rparr>)
      else if name = ''isSidebarExpanded'' then Some (state\<lparr> st_isSidebarExpanded := v \<rparr>)
      else if name = ''lineWrap'' then Some (state\<lparr> st_lineWrap := v \<rparr>)
      else None)"

text \<open>\<^verbatim>\<open>map[name].isEnabled = isEnabled\<close> on a plugin state map.\<close>

definition set_isEnabled :: "string \<Rightarrow> bool \<Rightarrow> plugin_state_map \<Rightarrow> plugin_state_map" where
  "set_isEnabled name v m =
     map (\<lambda>(key, p). if key = name then (key, p\<lparr> isEnabled := v \<rparr>) else (key, p)) m"

text \<open>
  Lines 403 to 428, the updater of \<^verbatim>\<open>_onSettingChange\<close>. It is \<open>None\<close> where the source
  stores the boolean in a state field of another type, a state the record cannot hold.
\<close>

definition setting_update :: "string \<Rightarrow> bool \<Rightarrow> repl \<Rightarrow> repl option" where
  "setting_update name v state =
     (if name = ''babel-polyfill''
      then Some (state\<lparr> st_runtimePolyfillState :=
                   (st_runtimePolyfillState state)\<lparr> isEnabled := v \<rparr> \<rparr>)
      else if name \<in> set state_keys then set_flag name v state
      else if name \<in> set (map fst (st_plugins state))
        then Some (state\<lparr> st_plugins := set_isEnabled name v (st_plugins state) \<rparr>)
      else if name \<in> set (map fst (st_presets state))
        then Some (state\<lparr> st_presets := set_isEnabled name v (st_presets state) \<rparr>)
      else Some state)"

text \<open>\<^verbatim>\<open>_onSettingChange\<close>: the update, then \<^verbatim>\<open>_presetsUpdatedSetStateCallback\<close>.\<close>

definition onSettingChange :: "string \<Rightarrow> bool \<Rightarrow> repl \<Rightarrow> (repl \<times> effect list) option" where
  "onSettingChange name v state =
     map_option presetsUpdatedSetStateCallback (setting_update name v state)"

subsection \<open>A session as a list of events\<close>

text \<open>
  The events that reach the component: an edit in the left panel (\<^verbatim>\<open>onChange\<close> is
  \<^verbatim>\<open>_updateCode\<close>), the end of a plugin load, the answer of the worker to a compile
  request (with the callback of that request), and time passing. An exception ends the
  handler that raised it and nothing else.
\<close>

datatype event = Edit string | PluginLoaded bool | Answer compile_return callback | Elapse nat

fun handle :: "event \<Rightarrow> repl \<Rightarrow> repl \<times> effect list" where
  "handle (Edit code) state = (updateCode code state, [])"
| "handle (PluginLoaded success) state = (loadPlugin_then success state, [])"
| "handle (Answer result cb) state =
     (case compile_then result cb state of (state', es, t) \<Rightarrow> (state', es))"
| "handle (Elapse ms) state = (case elapse ms state of (state', es, t) \<Rightarrow> (state', es))"

fun run :: "event list \<Rightarrow> repl \<Rightarrow> repl \<times> effect list" where
  "run [] state = (state, [])"
| "run (e # es) state =
     (case handle e state of
        (state', out) \<Rightarrow> (case run es state' of (state'', out') \<Rightarrow> (state'', out @ out')))"

text \<open>Edits that follow one another, each after the given pause.\<close>

fun edits :: "(nat \<times> string) list \<Rightarrow> event list" where
  "edits [] = []"
| "edits ((pause, code) # rest) = Elapse pause # Edit code # edits rest"

subsection \<open>Sample collaborators\<close>

text \<open>
  Stand-ins for the external compiler, used to run the model on concrete inputs. Their
  untyped values are numbers: \<open>0\<close> is an AST, \<open>1\<close> a source map, \<open>2\<close> a result of the env
  preset.
\<close>

text \<open>A compiler that rejects every input with a syntax error.\<close>

definition rejecting :: "nat externals" where
  "rejecting =
     \<lparr> Babel_transform = (\<lambda>code options.
         ([], Inl \<lparr> err_name = ''SyntaxError'', message = ''repl: Unexpected token (1:4)'' \<rparr>)),
       JSON_stringify = (\<lambda>v indent. Inr (Some ''{}'')),
       getDebugInfoFromEnvResult = (\<lambda>v. ''Using targets''),
       Date_now = (\<lambda>k. 1000 + 7 * int k) \<rparr>"

text \<open>
  A compiler that returns its input unchanged and calls every \<^verbatim>\<open>onPresetBuild\<close>
  callback it is given; its source maps cannot be serialised.
\<close>

definition callbacks_of :: "preset list \<Rightarrow> (nat \<times> nat) list" where
  "callbacks_of ps =
     map (\<lambda>i. (i, 2))
       (filter (\<lambda>i. case ps ! i of Name n \<Rightarrow> False | WithOptions n opts \<Rightarrow> onPresetBuild opts)
          [0 ..< length ps])"

definition passthrough :: "nat externals" where
  "passthrough =
     \<lparr> Babel_transform = (\<lambda>code options.
         (callbacks_of (opt_presets options), Inr \<lparr> t_code = code, t_ast = 0, t_map = 1 \<rparr>)),
       JSON_stringify = (\<lambda>v indent.
         if v = 1 then Inl \<lparr> err_name = ''TypeError'',
                              message = ''Converting circular structure to JSON'' \<rparr>
         else Inr (Some ''{}'')),
       getDebugInfoFromEnvResult = (\<lambda>v. ''Using targets''),
       Date_now = (\<lambda>k. 1000 + 7 * int k) \<rparr>"

text \<open>A compiler whose output is one letter for each preset it was given.\<close>

definition counting :: "nat externals" where
  "counting =
     \<lparr> Babel_transform = (\<lambda>code options.
         ([], Inr \<lparr> t_code = replicate (length (opt_presets options)) CHR ''p'',
                    t_ast = 0, t_map = 1 \<rparr>)),
       JSON_stringify = (\<lambda>v indent. Inr (Some ''{}'')),
       getDebugInfoFromEnvResult = (\<lambda>v. ''Using targets''),
       Date_now = (\<lambda>k. 1000 + 7 * int k) \<rparr>"

text \<open>A config with the env preset enabled, and one without env config.\<close>

definition env_ie11 :: env_config where
  "env_ie11 =
     \<lparr> browsers = ''ie 11, ,chrome 60 ,'', electron = ''1.5'', isElectronEnabled = False,
       isEnvPresetEnabled = True, isNodeEnabled = True, node = ''7.4'' \<rparr>"

definition config_env :: compile_config where
  "config_env =
     \<lparr> cfg_debugEnvPreset = True, cfg_envConfig = Some env_ie11, cfg_evaluate = False,
       cfg_presets = [Name ''es2015''], cfg_sourceMap = True, cfg_useBuiltIns = True \<rparr>"

definition config_plain :: compile_config where
  "config_plain =
     \<lparr> cfg_debugEnvPreset = False, cfg_envConfig = None, cfg_evaluate = False,
       cfg_presets = [Name ''es2015''], cfg_sourceMap = False, cfg_useBuiltIns = False \<rparr>"

subsection \<open>Sample states of the Repl\<close>

text \<open>
  A session with the minifier enabled and loaded, one preset in use, one that failed to
  load and one switched off; the env preset is loaded and enabled, evaluation is off.
\<close>

definition minify_loaded :: plugin_state where
  "minify_loaded =
     \<lparr> config_label = ''Minify'', isEnabled = True, isLoaded = True, isLoading = False,
       didError = False \<rparr>"

definition repl_loaded :: repl where
  "repl_loaded =
     \<lparr> st_builtIns = False, st_code = ''const x = 1'', st_compiled = Some ''var x = 1;'',
       st_ast = Some ''{}'', st_transformTime = Some 7, st_compileErrorMessage = None,
       st_debugEnvPreset = False, st_envConfig = env_ie11, st_envPresetDebugInfo = None,
       st_envPresetState =
         \<lparr> config_label = ''Env Preset'', isEnabled = True, isLoaded = True,
           isLoading = False, didError = False \<rparr>,
       st_evalErrorMessage = None, st_isEnvPresetTabExpanded = False,
       st_isPresetsTabExpanded = False, st_isSettingsTabExpanded = True,
       st_isSidebarExpanded = True, st_lineWrap = False,
       st_plugins = [(''babili-standalone'', minify_loaded)],
       st_presets =
         [(''babel-preset-es2015'',
           \<lparr> config_label = ''es2015'', isEnabled = True, isLoaded = True,
             isLoading = False, didError = False \<rparr>),
          (''babel-preset-react'',
           \<lparr> config_label = ''react'', isEnabled = True, isLoaded = False,
             isLoading = False, didError = True \<rparr>),
          (''babel-preset-stage-2'',
           \<lparr> config_label = ''stage-2'', isEnabled = False, isLoaded = True,
             isLoading = False, didError = False \<rparr>)],
       st_runtimePolyfillState =
         \<lparr> config_label = ''Evaluate'', isEnabled = False, isLoaded = False,
           isLoading = False, didError = False \<rparr>,
       st_sourceMap = None, numLoadingPlugins = 0, compileToState_timer = None \<rparr>"

text \<open>The same session at the moment the last plugin load in flight reports back.\<close>

definition repl_load_finishing :: repl where
  "repl_load_finishing = repl_loaded\<lparr> numLoadingPlugins := 1 \<rparr>"

text \<open>
  The same session with the env preset enabled and requested from the worker, its load
  still in flight.
\<close>

definition repl_env_loading :: repl where
  "repl_env_loading =
     repl_loaded\<lparr> st_envPresetState :=
       (st_envPresetState repl_loaded)\<lparr> isLoaded := False, isLoading := True \<rparr> \<rparr>"

text \<open>The config of the requests that \<open>repl_loaded\<close> sends.\<close>

definition sample_request :: compile_config where
  "sample_request = request_config repl_loaded minify_loaded"

text \<open>The codes of the compile requests among some effects, in order.\<close>

fun dispatched :: "effect list \<Rightarrow> string list" where
  "dispatched [] = []"
| "dispatched (WorkerCompile code config cb # es) = code # dispatched es"
| "dispatched (e # es) = dispatched es"

section \<open>Properties of the compile function\<close>

subsection \<open>Split and trim\<close>

lemma split_not_Nil: "split sep s \<noteq> []"
  by (induction s) (auto split: list.splits)

lemma split_no_sep: "piece \<in> set (split sep s) \<Longrightarrow> sep \<notin> set piece"
  by (induction s arbitrary: piece) (auto split: list.splits if_splits)

lemma concat_split: "concat (split sep s) = filter (\<lambda>c. c \<noteq> sep) s"
  by (induction s) (auto split: list.splits)

lemma length_split: "length (split sep s) = Suc (length (filter (\<lambda>c. c = sep) s))"
  by (induction s) (auto split: list.splits)

lemma set_trim: "set (trim s) \<subseteq> set s"
proof -
  have "set (trim s) \<subseteq> set (dropWhile isWhiteSpace s)"
    unfolding trim_def using set_dropWhileD by fastforce
  also have "\<dots> \<subseteq> set s" using set_dropWhileD by fastforce
  finally show ?thesis .
qed

lemma dropWhile_trim: "dropWhile isWhiteSpace (trim s) = trim s"
proof -
  let ?t = "dropWhile isWhiteSpace s"
  have t: "?t = trim s @ rev (takeWhile isWhiteSpace (rev ?t))"
    unfolding trim_def
    by (metis rev_append rev_rev_ident takeWhile_dropWhile_id)
  show ?thesis
  proof (cases "trim s")
    case Nil
    then show ?thesis by simp
  next
    case (Cons c cs)
    with t have eq: "?t = c # (cs @ rev (takeWhile isWhiteSpace (rev ?t)))" by simp
    then have "?t \<noteq> []" and "hd ?t = c" by (metis list.distinct(1), metis list.sel(1))
    then have "\<not> isWhiteSpace c" using hd_dropWhile by metis
    with Cons show ?thesis by simp
  qed
qed

lemma trim_trim: "trim (trim s) = trim s"
proof -
  have "trim (trim s) = rev (dropWhile isWhiteSpace (rev (trim s)))"
    by (simp add: trim_def [of "trim s"] dropWhile_trim)
  also have "\<dots> = trim s"
    by (simp add: trim_def)
  finally show ?thesis .
qed

lemma browsers_entries:
  assumes "b \<in> set (filter (\<lambda>v. v \<noteq> []) (map trim (split CHR '','' s)))"
  shows "b \<noteq> [] \<and> CHR '','' \<notin> set b \<and> trim b = b"
proof -
  from assms obtain piece
    where p: "piece \<in> set (split CHR '','' s)" and b: "b = trim piece" and ne: "b \<noteq> []"
    by auto
  from p have "CHR '','' \<notin> set piece" by (rule split_no_sep)
  with b set_trim [of piece] have "CHR '','' \<notin> set b" by auto
  with b ne show ?thesis by (simp add: trim_trim)
qed

lemma trim_ends:
  assumes "trim s \<noteq> []"
  shows "\<not> isWhiteSpace (hd (trim s)) \<and> \<not> isWhiteSpace (last (trim s))"
proof -
  from assms dropWhile_trim [of s] have "dropWhile isWhiteSpace (trim s) \<noteq> []" by simp
  then have "\<not> isWhiteSpace (hd (dropWhile isWhiteSpace (trim s)))" by (rule hd_dropWhile)
  then have first: "\<not> isWhiteSpace (hd (trim s))" by (simp add: dropWhile_trim)
  have r: "rev (trim s) = dropWhile isWhiteSpace (rev (dropWhile isWhiteSpace s))"
    by (simp add: trim_def)
  with assms have "dropWhile isWhiteSpace (rev (dropWhile isWhiteSpace s)) \<noteq> []"
    by (metis rev_is_Nil_conv)
  then have "\<not> isWhiteSpace (hd (dropWhile isWhiteSpace (rev (dropWhile isWhiteSpace s))))"
    by (rule hd_dropWhile)
  with r have "\<not> isWhiteSpace (hd (rev (trim s)))" by simp
  with assms have "\<not> isWhiteSpace (last (trim s))" by (simp add: hd_rev)
  with first show ?thesis by simp
qed

lemma browsers_entries_ends:
  assumes "b \<in> set (filter (\<lambda>v. v \<noteq> []) (map trim (split CHR '','' s)))"
  shows "\<not> isWhiteSpace (hd b) \<and> \<not> isWhiteSpace (last b)"
proof -
  from assms obtain piece where "b = trim piece" and "b \<noteq> []" by auto
  then show ?thesis using trim_ends [of piece] by simp
qed

subsection \<open>The config object and the single call of the compiler\<close>

lemma push_env_preset_fields:
  "cfg_debugEnvPreset (push_env_preset config) = cfg_debugEnvPreset config"
  "cfg_envConfig (push_env_preset config) = cfg_envConfig config"
  "cfg_evaluate (push_env_preset config) = cfg_evaluate config"
  "cfg_sourceMap (push_env_preset config) = cfg_sourceMap config"
  "cfg_useBuiltIns (push_env_preset config) = cfg_useBuiltIns config"
  by (simp_all add: push_env_preset_def split: option.splits)

lemma push_env_preset_disabled:
  "cfg_envConfig config = None \<or>
   (\<exists>envConfig. cfg_envConfig config = Some envConfig \<and> \<not> isEnvPresetEnabled envConfig) \<Longrightarrow>
   push_env_preset config = config"
  by (auto simp add: push_env_preset_def)

lemma compile_leaves: "fst (snd (compile ext code config)) = push_env_preset config"
  by (simp add: compile_def Let_def split: prod.splits sum.splits)

lemma captured_debugInfo_clock:
  "captured_debugInfo (ext\<lparr> Date_now := clock \<rparr>) config calls =
   captured_debugInfo ext config calls"
  by (simp add: captured_debugInfo_def split: option.splits list.splits)

lemma captured_debugInfo_transform:
  "captured_debugInfo (ext\<lparr> Babel_transform := bt \<rparr>) config calls =
   captured_debugInfo ext config calls"
  by (simp add: captured_debugInfo_def split: option.splits list.splits)

lemma compile_one_call:
  "bt code (babel_options (push_env_preset config)) =
     Babel_transform ext code (babel_options (push_env_preset config)) \<Longrightarrow>
   compile (ext\<lparr> Babel_transform := bt \<rparr>) code config = compile ext code config"
  by (simp add: compile_def Let_def captured_debugInfo_transform split: prod.splits sum.splits)

lemma compile_any_clock:
  "(fst (compile (ext\<lparr> Date_now := clock_a \<rparr>) code config))\<lparr> transformTime := None \<rparr> =
   (fst (compile (ext\<lparr> Date_now := clock_b \<rparr>) code config))\<lparr> transformTime := None \<rparr>"
  by (simp add: compile_def Let_def caught_def captured_debugInfo_clock
      split: prod.splits sum.splits)

lemma compile_thrown:
  "Babel_transform ext code (babel_options (push_env_preset config)) = (calls, Inl error) \<Longrightarrow>
   fst (compile ext code config) = caught error"
  by (simp add: compile_def Let_def)

lemma compile_returned:
  "Babel_transform ext code (babel_options (push_env_preset config)) = (calls, Inr transformed) \<Longrightarrow>
   JSON_stringify ext (t_ast transformed) 2 = Inr astJson \<Longrightarrow>
   compiled (fst (compile ext code config)) = Some (t_code transformed) \<and>
   ast (fst (compile ext code config)) = astJson \<and>
   compileErrorMessage (fst (compile ext code config)) = None"
  by (simp add: compile_def Let_def split: sum.splits)

lemma push_env_preset_presets:
  "cfg_presets (push_env_preset config) =
     (case cfg_envConfig config of
        None \<Rightarrow> cfg_presets config
      | Some envConfig \<Rightarrow>
          if isEnvPresetEnabled envConfig
          then cfg_presets config @
               [WithOptions ''env''
                  \<lparr> onPresetBuild = cfg_debugEnvPreset config,
                    targets =
                      \<lparr> tg_browsers =
                          (if browsers envConfig = [] then None
                           else Some (filter (\<lambda>v. v \<noteq> [])
                                        (map trim (split CHR '','' (browsers envConfig))))),
                        tg_electron =
                          (if isElectronEnabled envConfig then Some (electron envConfig)
                           else None),
                        tg_node =
                          (if isNodeEnabled envConfig then Some (node envConfig) else None) \<rparr>,
                    useBuiltIns = (cfg_useBuiltIns config \<and> \<not> cfg_evaluate config) \<rparr>]
          else cfg_presets config)"
  by (auto simp add: push_env_preset_def compile_options_def compile_targets_def
      split: option.splits)

subsection \<open>The claims about the compile function\<close>

text \<open>
  C1. When the call of \<^verbatim>\<open>Babel.transform\<close> throws, \<^verbatim>\<open>compile\<close> returns the object
  whose \<open>compiled\<close>, \<open>ast\<close>, \<open>transformTime\<close>, \<open>envPresetDebugInfo\<close> and \<open>sourceMap\<close> are
  null and whose \<open>compileErrorMessage\<close> is the message of the thrown error, so a non-empty
  message gives a non-empty \<open>compileErrorMessage\<close>. For every input, a returned object
  with a \<open>compileErrorMessage\<close> has none of the other fields populated.
\<close>

theorem compile_transform_throws:
  "(snd (Babel_transform ext code (babel_options (push_env_preset config))) = Inl error \<longrightarrow>
      fst (compile ext code config) =
        \<lparr> compiled = None, transformTime = None, ast = None,
          compileErrorMessage = Some (message error),
          envPresetDebugInfo = None, sourceMap = None \<rparr>) \<and>
   (compileErrorMessage (fst (compile ext code config)) \<noteq> None \<longrightarrow>
      compiled (fst (compile ext code config)) = None \<and>
      ast (fst (compile ext code config)) = None \<and>
      transformTime (fst (compile ext code config)) = None \<and>
      envPresetDebugInfo (fst (compile ext code config)) = None \<and>
      sourceMap (fst (compile ext code config)) = None)"
  by (simp add: compile_def caught_def Let_def split: prod.splits sum.splits)

theorem compile_transform_throws_witness:
  "snd (Babel_transform rejecting ''let = 1'' (babel_options (push_env_preset config_env)))
     = Inl \<lparr> err_name = ''SyntaxError'', message = ''repl: Unexpected token (1:4)'' \<rparr> \<and>
   fst (compile rejecting ''let = 1'' config_env) =
     \<lparr> compiled = None, transformTime = None, ast = None,
       compileErrorMessage = Some ''repl: Unexpected token (1:4)'',
       envPresetDebugInfo = None, sourceMap = None \<rparr> \<and>
   compileErrorMessage (fst (compile rejecting ''let = 1'' config_env)) \<noteq> None"
proof -
  have thrown:
    "snd (Babel_transform rejecting ''let = 1'' (babel_options (push_env_preset config_env)))
       = Inl \<lparr> err_name = ''SyntaxError'', message = ''repl: Unexpected token (1:4)'' \<rparr>"
    by (simp add: rejecting_def)
  from compile_transform_throws
    [of rejecting "''let = 1''" config_env
        "\<lparr> err_name = ''SyntaxError'', message = ''repl: Unexpected token (1:4)'' \<rparr>"]
    thrown
  show ?thesis by simp
qed

text \<open>
  C2, as amended. Two calls of \<^verbatim>\<open>compile\<close> on the same code and on configs with the
  same field values when each call starts return objects that are equal in every field
  except \<open>transformTime\<close>, whatever the clock reads. A second call on the config object that
  a first call has used returns such an object when the env config is absent or the env
  preset disabled. (As stated the claim fails: with the env preset enabled the first call
  leaves its entry in the presets of the config object, and the second call hands the
  compiler a longer list.)
\<close>

theorem compile_twice:
  "(fst (compile (ext\<lparr> Date_now := clock_a \<rparr>) code config))\<lparr> transformTime := None \<rparr> =
   (fst (compile (ext\<lparr> Date_now := clock_b \<rparr>) code config))\<lparr> transformTime := None \<rparr> \<and>
   (cfg_envConfig config = None \<or>
    (\<exists>envConfig. cfg_envConfig config = Some envConfig \<and> \<not> isEnvPresetEnabled envConfig) \<longrightarrow>
      (fst (compile (ext\<lparr> Date_now := clock_b \<rparr>) code
              (fst (snd (compile (ext\<lparr> Date_now := clock_a \<rparr>) code config)))))
         \<lparr> transformTime := None \<rparr> =
      (fst (compile (ext\<lparr> Date_now := clock_a \<rparr>) code config))\<lparr> transformTime := None \<rparr>)"
proof (intro conjI impI)
  show "(fst (compile (ext\<lparr> Date_now := clock_a \<rparr>) code config))\<lparr> transformTime := None \<rparr> =
        (fst (compile (ext\<lparr> Date_now := clock_b \<rparr>) code config))\<lparr> transformTime := None \<rparr>"
    by (rule compile_any_clock)
next
  assume "cfg_envConfig config = None \<or>
    (\<exists>envConfig. cfg_envConfig config = Some envConfig \<and> \<not> isEnvPresetEnabled envConfig)"
  then have "fst (snd (compile (ext\<lparr> Date_now := clock_a \<rparr>) code config)) = config"
    by (simp only: compile_leaves push_env_preset_disabled)
  then show "(fst (compile (ext\<lparr> Date_now := clock_b \<rparr>) code
                     (fst (snd (compile (ext\<lparr> Date_now := clock_a \<rparr>) code config)))))
                \<lparr> transformTime := None \<rparr> =
             (fst (compile (ext\<lparr> Date_now := clock_a \<rparr>) code config))
                \<lparr> transformTime := None \<rparr>"
    by (simp only: compile_any_clock [where clock_a = clock_b and clock_b = clock_a])
qed

theorem compile_twice_witness:
  "cfg_envConfig config_plain = None \<and>
   (fst (compile (passthrough\<lparr> Date_now := (\<lambda>k. 5000 + 9 * int k) \<rparr>) ''const x = 1''
           (fst (snd (compile (passthrough\<lparr> Date_now := (\<lambda>k. 70 + 2 * int k) \<rparr>)
                        ''const x = 1'' config_plain)))))
      \<lparr> transformTime := None \<rparr> =
   (fst (compile (passthrough\<lparr> Date_now := (\<lambda>k. 70 + 2 * int k) \<rparr>) ''const x = 1''
           config_plain))
      \<lparr> transformTime := None \<rparr>"
proof -
  have absent: "cfg_envConfig config_plain = None"
    by (simp add: config_plain_def)
  from compile_twice
    [where ext = passthrough and clock_a = "\<lambda>k. 70 + 2 * int k"
       and code = "''const x = 1''" and config = config_plain
       and clock_b = "\<lambda>k. 5000 + 9 * int k"]
    absent
  show ?thesis by blast
qed

theorem compile_twice_same_object_counterexample:
  "compiled (fst (compile counting ''const x = 1'' config_env)) = Some ''pp'' \<and>
   compiled (fst (compile counting ''const x = 1''
                    (fst (snd (compile counting ''const x = 1'' config_env))))) = Some ''ppp''"
  by (simp add: compile_def counting_def config_env_def env_ie11_def push_env_preset_def
      babel_options_def Let_def)

text \<open>
  C3, as amended. \<^verbatim>\<open>compile\<close> leaves every field of its config argument as it was,
  except \<open>presets\<close>: when the env config is present and the env preset enabled, the call
  appends its \<^verbatim>\<open>["env", options]\<close> entry to the presets array of the caller; the
  entries already there stay, in order. When the env config is absent or the env preset
  disabled, the config is unchanged.
\<close>

theorem compile_config_after:
  "cfg_debugEnvPreset (fst (snd (compile ext code config))) = cfg_debugEnvPreset config \<and>
   cfg_envConfig (fst (snd (compile ext code config))) = cfg_envConfig config \<and>
   cfg_evaluate (fst (snd (compile ext code config))) = cfg_evaluate config \<and>
   cfg_sourceMap (fst (snd (compile ext code config))) = cfg_sourceMap config \<and>
   cfg_useBuiltIns (fst (snd (compile ext code config))) = cfg_useBuiltIns config \<and>
   cfg_presets (fst (snd (compile ext code config))) =
     cfg_presets config @
     (case cfg_envConfig config of
        None \<Rightarrow> []
      | Some envConfig \<Rightarrow>
          if isEnvPresetEnabled envConfig
          then [WithOptions ''env'' (compile_options config envConfig)] else []) \<and>
   (cfg_envConfig config = None \<or>
    (\<exists>envConfig. cfg_envConfig config = Some envConfig \<and> \<not> isEnvPresetEnabled envConfig) \<longrightarrow>
      fst (snd (compile ext code config)) = config)"
  by (auto simp add: compile_leaves push_env_preset_def split: option.splits)

theorem compile_config_after_witness:
  "cfg_envConfig config_plain = None \<and>
   fst (snd (compile passthrough ''const x = 1'' config_plain)) = config_plain"
proof -
  have absent: "cfg_envConfig config_plain = None"
    by (simp add: config_plain_def)
  from compile_config_after [of passthrough "''const x = 1''" config_plain] absent
  show ?thesis by blast
qed

theorem compile_mutates_presets_counterexample:
  "cfg_presets config_env = [Name ''es2015''] \<and>
   cfg_presets (fst (snd (compile passthrough ''const x = 1'' config_env))) =
     [Name ''es2015'',
      WithOptions ''env''
        \<lparr> onPresetBuild = True,
          targets = \<lparr> tg_browsers = Some [''ie 11'', ''chrome 60''], tg_electron = None,
                      tg_node = Some ''7.4'' \<rparr>,
          useBuiltIns = True \<rparr>]"
  by (simp add: compile_leaves config_env_def env_ie11_def push_env_preset_def
      compile_options_def compile_targets_def trim_def isWhiteSpace_def)

text \<open>
  C6. Let \<open>passed\<close> be the presets of the config, followed, when the env config is present
  and its env preset enabled, by one \<^verbatim>\<open>"env"\<close> entry. The targets of that entry have
  the key \<open>browsers\<close> exactly when the browsers string is non-empty, holding the pieces
  between the commas, each trimmed, without the empty ones; \<open>electron\<close> and \<open>node\<close> are
  present exactly when their flags are set; \<open>useBuiltIns\<close> is \<open>config.useBuiltIns\<close> and not
  \<open>config.evaluate\<close>. Then \<^verbatim>\<open>compile\<close> leaves \<open>passed\<close> as the presets of the config
  object and calls the compiler with \<open>passed\<close>: what the compiler throws or returns at these
  options is what \<^verbatim>\<open>compile\<close> reports, and the compiler's behaviour at other options
  changes nothing. When the entry was appended and has browsers, it is the last preset,
  its name is \<^verbatim>\<open>env\<close>, the browsers string was non-empty, and no browser is empty,
  contains a comma, or starts or ends with white space.
\<close>

theorem env_preset_entry:
  assumes "passed =
     (case cfg_envConfig config of
        None \<Rightarrow> cfg_presets config
      | Some envConfig \<Rightarrow>
          if isEnvPresetEnabled envConfig
          then cfg_presets config @
               [WithOptions ''env''
                  \<lparr> onPresetBuild = cfg_debugEnvPreset config,
                    targets =
                      \<lparr> tg_browsers =
                          (if browsers envConfig = [] then None
                           else Some (filter (\<lambda>v. v \<noteq> [])
                                        (map trim (split CHR '','' (browsers envConfig))))),
                        tg_electron =
                          (if isElectronEnabled envConfig then Some (electron envConfig)
                           else None),
                        tg_node =
                          (if isNodeEnabled envConfig then Some (node envConfig) else None) \<rparr>,
                    useBuiltIns = (cfg_useBuiltIns config \<and> \<not> cfg_evaluate config) \<rparr>]
          else cfg_presets config)"
    and "options =
     \<lparr> babelrc = False, filename = ''repl'', opt_presets = passed,
       opt_sourceMap = cfg_sourceMap config \<rparr>"
  shows "cfg_presets (fst (snd (compile ext code config))) = passed \<and>
    (\<forall>calls error. Babel_transform ext code options = (calls, Inl error) \<longrightarrow>
       fst (compile ext code config) =
         \<lparr> compiled = None, transformTime = None, ast = None,
           compileErrorMessage = Some (message error),
           envPresetDebugInfo = None, sourceMap = None \<rparr>) \<and>
    (\<forall>calls transformed astJson.
       Babel_transform ext code options = (calls, Inr transformed) \<and>
       JSON_stringify ext (t_ast transformed) 2 = Inr astJson \<longrightarrow>
         compiled (fst (compile ext code config)) = Some (t_code transformed) \<and>
         ast (fst (compile ext code config)) = astJson \<and>
         compileErrorMessage (fst (compile ext code config)) = None) \<and>
    (\<forall>bt. bt code options = Babel_transform ext code options \<longrightarrow>
       compile (ext\<lparr> Babel_transform := bt \<rparr>) code config = compile ext code config) \<and>
    (\<forall>envConfig name opts bs.
       cfg_envConfig config = Some envConfig \<and> isEnvPresetEnabled envConfig \<and>
       last (cfg_presets (fst (snd (compile ext code config)))) = WithOptions name opts \<and>
       tg_browsers (targets opts) = Some bs \<longrightarrow>
         name = ''env'' \<and> browsers envConfig \<noteq> [] \<and>
         (\<forall>b \<in> set bs. b \<noteq> [] \<and> CHR '','' \<notin> set b \<and> trim b = b \<and>
                      \<not> isWhiteSpace (hd b) \<and> \<not> isWhiteSpace (last b)))"
proof -
  from assms(1) have passed: "passed = cfg_presets (push_env_preset config)"
    by (simp only: push_env_preset_presets)
  with assms(2) have options: "options = babel_options (push_env_preset config)"
    by (simp add: babel_options_def push_env_preset_fields)
  have after: "cfg_presets (fst (snd (compile ext code config))) = passed"
    by (simp add: compile_leaves passed)
  have thrown: "fst (compile ext code config) =
         \<lparr> compiled = None, transformTime = None, ast = None,
           compileErrorMessage = Some (message error),
           envPresetDebugInfo = None, sourceMap = None \<rparr>"
    if "Babel_transform ext code options = (calls, Inl error)" for calls error
    using compile_thrown [of ext code config calls error] that
    by (simp add: options caught_def)
  have returned: "compiled (fst (compile ext code config)) = Some (t_code transformed) \<and>
         ast (fst (compile ext code config)) = astJson \<and>
         compileErrorMessage (fst (compile ext code config)) = None"
    if "Babel_transform ext code options = (calls, Inr transformed) \<and>
       JSON_stringify ext (t_ast transformed) 2 = Inr astJson" for calls transformed astJson
    using compile_returned [of ext code config calls transformed astJson] that
    by (simp add: options)
  have only: "compile (ext\<lparr> Babel_transform := bt \<rparr>) code config = compile ext code config"
    if "bt code options = Babel_transform ext code options" for bt
    using compile_one_call [of bt code config ext] that by (simp add: options)
  have entries: "name = ''env'' \<and> browsers envConfig \<noteq> [] \<and>
         (\<forall>b \<in> set bs. b \<noteq> [] \<and> CHR '','' \<notin> set b \<and> trim b = b \<and>
                      \<not> isWhiteSpace (hd b) \<and> \<not> isWhiteSpace (last b))"
    if h: "cfg_envConfig config = Some envConfig \<and> isEnvPresetEnabled envConfig \<and>
       last (cfg_presets (fst (snd (compile ext code config)))) = WithOptions name opts \<and>
       tg_browsers (targets opts) = Some bs" for envConfig name opts bs
  proof -
    from h have "last (cfg_presets (fst (snd (compile ext code config)))) =
        WithOptions ''env'' (compile_options config envConfig)"
      by (simp add: compile_leaves push_env_preset_def)
    with h have n: "name = ''env''" and o: "opts = compile_options config envConfig" by simp_all
    from o h have b: "tg_browsers (compile_targets envConfig) = Some bs"
      by (simp add: compile_options_def)
    then have "browsers envConfig \<noteq> []"
      and "bs = filter (\<lambda>v. v \<noteq> []) (map trim (split CHR '','' (browsers envConfig)))"
      by (auto simp add: compile_targets_def split: if_splits)
    with n show ?thesis using browsers_entries browsers_entries_ends by blast
  qed
  from after thrown returned only entries show ?thesis by blast
qed

theorem env_preset_entry_witness:
  "[Name ''es2015'',
    WithOptions ''env''
      \<lparr> onPresetBuild = True,
        targets = \<lparr> tg_browsers = Some [''ie 11'', ''chrome 60''], tg_electron = None,
                    tg_node = Some ''7.4'' \<rparr>,
        useBuiltIns = True \<rparr>] =
     (case cfg_envConfig config_env of
        None \<Rightarrow> cfg_presets config_env
      | Some envConfig \<Rightarrow>
          if isEnvPresetEnabled envConfig
          then cfg_presets config_env @
               [WithOptions ''env''
                  \<lparr> onPresetBuild = cfg_debugEnvPreset config_env,
                    targets =
                      \<lparr> tg_browsers =
                          (if browsers envConfig = [] then None
                           else Some (filter (\<lambda>v. v \<noteq> [])
                                        (map trim (split CHR '','' (browsers envConfig))))),
                        tg_electron =
                          (if isElectronEnabled envConfig then Some (electron envConfig)
                           else None),
                        tg_node =
                          (if isNodeEnabled envConfig then Some (node envConfig) else None) \<rparr>,
                    useBuiltIns =
                      (cfg_useBuiltIns config_env \<and> \<not> cfg_evaluate config_env) \<rparr>]
          else cfg_presets config_env) \<and>
   cfg_presets (fst (snd (compile passthrough ''const x = 1'' config_env))) =
     [Name ''es2015'',
      WithOptions ''env''
        \<lparr> onPresetBuild = True,
          targets = \<lparr> tg_browsers = Some [''ie 11'', ''chrome 60''], tg_electron = None,
                      tg_node = Some ''7.4'' \<rparr>,
          useBuiltIns = True \<rparr>] \<and>
   compiled (fst (compile passthrough ''const x = 1'' config_env)) = Some ''const x = 1'' \<and>
   fst (compile rejecting ''let = 1'' config_env) =
     \<lparr> compiled = None, transformTime = None, ast = None,
       compileErrorMessage = Some ''repl: Unexpected token (1:4)'',
       envPresetDebugInfo = None, sourceMap = None \<rparr> \<and>
   compile (passthrough\<lparr> Babel_transform :=
              (\<lambda>c options. if c = ''const x = 1'' then Babel_transform passthrough c options
                             else Babel_transform rejecting c options) \<rparr>)
     ''const x = 1'' config_env =
   compile passthrough ''const x = 1'' config_env \<and>
   list_all (\<lambda>b. b \<noteq> [] \<and> CHR '','' \<notin> set b \<and> trim b = b \<and>
                  \<not> isWhiteSpace (hd b) \<and> \<not> isWhiteSpace (last b))
     [''ie 11'', ''chrome 60''] \<and>
   cfg_presets (fst (snd (compile passthrough ''const x = 1'' config_plain))) =
     [Name ''es2015'']"
proof -
  let ?entry = "WithOptions ''env''
      \<lparr> onPresetBuild = True,
        targets = \<lparr> tg_browsers = Some [''ie 11'', ''chrome 60''], tg_electron = None,
                    tg_node = Some ''7.4'' \<rparr>,
        useBuiltIns = True \<rparr>"
  let ?passed = "[Name ''es2015'', ?entry]"
  let ?options = "\<lparr> babelrc = False, filename = ''repl'', opt_presets = ?passed,
                    opt_sourceMap = cfg_sourceMap config_env \<rparr>"
  have passed: "?passed =
     (case cfg_envConfig config_env of
        None \<Rightarrow> cfg_presets config_env
      | Some envConfig \<Rightarrow>
          if isEnvPresetEnabled envConfig
          then cfg_presets config_env @
               [WithOptions ''env''
                  \<lparr> onPresetBuild = cfg_debugEnvPreset config_env,
                    targets =
                      \<lparr> tg_browsers =
                          (if browsers envConfig = [] then None
                           else Some (filter (\<lambda>v. v \<noteq> [])
                                        (map trim (split CHR '','' (browsers envConfig))))),
                        tg_electron =
                          (if isElectronEnabled envConfig then Some (electron envConfig)
                           else None),
                        tg_node =
                          (if isNodeEnabled envConfig then Some (node envConfig) else None) \<rparr>,
                    useBuiltIns =
                      (cfg_useBuiltIns config_env \<and> \<not> cfg_evaluate config_env) \<rparr>]
          else cfg_presets config_env)"
    by (simp add: config_env_def env_ie11_def trim_def isWhiteSpace_def)
  note at_passthrough =
    env_preset_entry [where ext = passthrough and code = "''const x = 1''", OF passed refl]
  note at_rejecting =
    env_preset_entry [where ext = rejecting and code = "''let = 1''", OF passed refl]
  from at_passthrough
  have after: "cfg_presets (fst (snd (compile passthrough ''const x = 1'' config_env))) = ?passed"
    by blast
  have returns: "Babel_transform passthrough ''const x = 1'' ?options =
      ([(1, 2)], Inr \<lparr> t_code = ''const x = 1'', t_ast = 0, t_map = 1 \<rparr>) \<and>
     JSON_stringify passthrough (t_ast \<lparr> t_code = ''const x = 1'', t_ast = 0, t_map = 1 \<rparr>) 2 =
       Inr (Some ''{}'')"
    by (simp add: passthrough_def callbacks_of_def)
  with at_passthrough
  have "compiled (fst (compile passthrough ''const x = 1'' config_env)) =
          Some (t_code \<lparr> t_code = ''const x = 1'', t_ast = 0::nat, t_map = 1::nat \<rparr>)"
    by blast
  then have result: "compiled (fst (compile passthrough ''const x = 1'' config_env)) =
      Some ''const x = 1''"
    by simp
  have throws: "Babel_transform rejecting ''let = 1'' ?options =
      ([], Inl \<lparr> err_name = ''SyntaxError'', message = ''repl: Unexpected token (1:4)'' \<rparr>)"
    by (simp add: rejecting_def)
  with at_rejecting
  have "fst (compile rejecting ''let = 1'' config_env) =
     \<lparr> compiled = None, transformTime = None, ast = None,
       compileErrorMessage =
         Some (message \<lparr> err_name = ''SyntaxError'',
                         message = ''repl: Unexpected token (1:4)'' \<rparr>),
       envPresetDebugInfo = None, sourceMap = None \<rparr>"
    by blast
  then have failed: "fst (compile rejecting ''let = 1'' config_env) =
     \<lparr> compiled = None, transformTime = None, ast = None,
       compileErrorMessage = Some ''repl: Unexpected token (1:4)'',
       envPresetDebugInfo = None, sourceMap = None \<rparr>"
    by simp
  from at_passthrough
  have every: "\<forall>bt. bt ''const x = 1'' ?options =
           Babel_transform passthrough ''const x = 1'' ?options \<longrightarrow>
         compile (passthrough\<lparr> Babel_transform := bt \<rparr>) ''const x = 1'' config_env =
         compile passthrough ''const x = 1'' config_env"
    by blast
  have same:
    "(\<lambda>c options. if c = ''const x = 1'' then Babel_transform passthrough c options
                     else Babel_transform rejecting c options) ''const x = 1'' ?options =
     Babel_transform passthrough ''const x = 1'' ?options"
    by simp
  have one: "compile (passthrough\<lparr> Babel_transform :=
              (\<lambda>c options. if c = ''const x = 1'' then Babel_transform passthrough c options
                             else Babel_transform rejecting c options) \<rparr>)
       ''const x = 1'' config_env =
     compile passthrough ''const x = 1'' config_env"
    by (rule every [THEN spec, THEN mp]) (rule same)
  have enabled: "cfg_envConfig config_env = Some env_ie11 \<and> isEnvPresetEnabled env_ie11"
    by (simp add: config_env_def env_ie11_def)
  have lastly: "last (cfg_presets (fst (snd (compile passthrough ''const x = 1'' config_env)))) =
      ?entry \<and>
    tg_browsers (targets \<lparr> onPresetBuild = True,
        targets = \<lparr> tg_browsers = Some [''ie 11'', ''chrome 60''], tg_electron = None,
                    tg_node = Some ''7.4'' \<rparr>,
        useBuiltIns = True \<rparr>) = Some [''ie 11'', ''chrome 60'']"
    by (simp add: after)
  from at_passthrough enabled lastly
  have "\<forall>b \<in> set [''ie 11'', ''chrome 60'']. b \<noteq> [] \<and> CHR '','' \<notin> set b \<and> trim b = b \<and>
                  \<not> isWhiteSpace (hd b) \<and> \<not> isWhiteSpace (last b)"
    by blast
  then have entries:
    "list_all (\<lambda>b. b \<noteq> [] \<and> CHR '','' \<notin> set b \<and> trim b = b \<and>
                  \<not> isWhiteSpace (hd b) \<and> \<not> isWhiteSpace (last b))
       [''ie 11'', ''chrome 60'']"
    by (simp only: list_all_iff)
  have plain: "[Name ''es2015''] =
     (case cfg_envConfig config_plain of
        None \<Rightarrow> cfg_presets config_plain
      | Some envConfig \<Rightarrow>
          if isEnvPresetEnabled envConfig
          then cfg_presets config_plain @
               [WithOptions ''env''
                  \<lparr> onPresetBuild = cfg_debugEnvPreset config_plain,
                    targets =
                      \<lparr> tg_browsers =
                          (if browsers envConfig = [] then None
                           else Some (filter (\<lambda>v. v \<noteq> [])
                                        (map trim (split CHR '','' (browsers envConfig))))),
                        tg_electron =
                          (if isElectronEnabled envConfig then Some (electron envConfig)
                           else None),
                        tg_node =
                          (if isNodeEnabled envConfig then Some (node envConfig) else None) \<rparr>,
                    useBuiltIns =
                      (cfg_useBuiltIns config_plain \<and> \<not> cfg_evaluate config_plain) \<rparr>]
          else cfg_presets config_plain)"
    by (simp add: config_plain_def)
  from env_preset_entry [where ext = passthrough and code = "''const x = 1''", OF plain refl]
  have unchanged:
    "cfg_presets (fst (snd (compile passthrough ''const x = 1'' config_plain))) =
       [Name ''es2015'']"
    by blast
  from passed after result failed one entries unchanged show ?thesis by simp
qed

text \<open>
  C7. When the transform returns, its AST is serialised, a source map was requested and
  serialising the source map throws, \<^verbatim>\<open>compile\<close> returns the successful object:
  \<open>compiled\<close> is the compiler's code, \<open>ast\<close> the serialised AST, \<open>compileErrorMessage\<close> is
  null and \<open>sourceMap\<close> is null. The failure is written to the console and nowhere else.
\<close>

theorem sourceMap_failure_not_fatal:
  assumes "snd (Babel_transform ext code (babel_options (push_env_preset config)))
             = Inr transformed"
    and "cfg_sourceMap config"
    and "JSON_stringify ext (t_ast transformed) 2 = Inr astJson"
    and "JSON_stringify ext (t_map transformed) 0 = Inl error"
  shows "fst (compile ext code config) =
           \<lparr> compiled = Some (t_code transformed),
             transformTime = Some (Date_now ext 1 - Date_now ext 0),
             ast = astJson,
             compileErrorMessage = None,
             envPresetDebugInfo =
               captured_debugInfo ext config
                 (fst (Babel_transform ext code (babel_options (push_env_preset config)))),
             sourceMap = None \<rparr> \<and>
         snd (snd (compile ext code config)) =
           [''Source Map generation failed: '' @ error_toString error]"
proof -
  obtain calls where bt:
    "Babel_transform ext code (babel_options (push_env_preset config)) =
       (calls, Inr transformed)"
    using assms(1)
    by (cases "Babel_transform ext code (babel_options (push_env_preset config))") simp
  show ?thesis using assms(2-4) bt
    by (simp add: compile_def Let_def push_env_preset_fields)
qed

theorem sourceMap_failure_not_fatal_witness:
  "snd (Babel_transform passthrough ''const x = 1''
          (babel_options (push_env_preset config_env)))
     = Inr \<lparr> t_code = ''const x = 1'', t_ast = 0, t_map = 1 \<rparr> \<and>
   cfg_sourceMap config_env \<and>
   JSON_stringify passthrough 0 2 = Inr (Some ''{}'') \<and>
   JSON_stringify passthrough 1 0 =
     Inl \<lparr> err_name = ''TypeError'', message = ''Converting circular structure to JSON'' \<rparr> \<and>
   fst (compile passthrough ''const x = 1'' config_env) =
     \<lparr> compiled = Some ''const x = 1'', transformTime = Some 7, ast = Some ''{}'',
       compileErrorMessage = None, envPresetDebugInfo = Some ''Using targets'',
       sourceMap = None \<rparr> \<and>
   snd (snd (compile passthrough ''const x = 1'' config_env)) =
     [''Source Map generation failed: TypeError: Converting circular structure to JSON'']"
proof -
  have returned:
    "snd (Babel_transform passthrough ''const x = 1''
            (babel_options (push_env_preset config_env)))
       = Inr \<lparr> t_code = ''const x = 1'', t_ast = 0, t_map = 1 \<rparr>"
    by (simp add: passthrough_def)
  have requested: "cfg_sourceMap config_env"
    by (simp add: config_env_def)
  have astJson:
    "JSON_stringify passthrough (t_ast \<lparr> t_code = ''const x = 1'', t_ast = 0, t_map = 1 \<rparr>) 2
       = Inr (Some ''{}'')"
    by (simp add: passthrough_def)
  have mapThrows:
    "JSON_stringify passthrough (t_map \<lparr> t_code = ''const x = 1'', t_ast = 0, t_map = 1 \<rparr>) 0
       = Inl \<lparr> err_name = ''TypeError'', message = ''Converting circular structure to JSON'' \<rparr>"
    by (simp add: passthrough_def)
  have calls:
    "fst (Babel_transform passthrough ''const x = 1''
            (babel_options (push_env_preset config_env))) = [(1, 2)]"
    by (simp add: passthrough_def callbacks_of_def babel_options_def push_env_preset_def
        config_env_def env_ie11_def compile_options_def)
  have info: "captured_debugInfo passthrough config_env [(1, 2)] = Some ''Using targets''"
    by (simp add: captured_debugInfo_def config_env_def env_ie11_def passthrough_def)
  have clock: "Date_now passthrough 1 - Date_now passthrough 0 = 7"
    by (simp add: passthrough_def)
  from sourceMap_failure_not_fatal [OF returned requested astJson mapThrows]
    returned requested astJson mapThrows calls info clock
  show ?thesis by (simp add: error_toString_def)
qed

section \<open>Properties of the Repl component\<close>

subsection \<open>Debounced edits\<close>

lemma updateCode_absorb:
  "updateCode code (state\<lparr> compileToState_timer := t \<rparr>) = updateCode code state"
  "updateCode code (updateCode code' state) = updateCode code state"
  by (simp_all add: updateCode_def compileToState_def)

lemma run_append:
  "run (xs @ ys) state =
     (case run xs state of
        (state', out) \<Rightarrow> (case run ys state' of (state'', out') \<Rightarrow> (state'', out @ out')))"
  by (induction xs arbitrary: state) (auto split: prod.splits)

lemma run_edits:
  "\<forall>pause \<in> set (map fst rest). pause < DEBOUNCE_DELAY \<Longrightarrow>
   run (edits rest) (updateCode code state) =
     (updateCode (last (code # map snd rest)) state, [])"
proof (induction rest arbitrary: code)
  case Nil
  then show ?case by simp
next
  case (Cons pc rest)
  obtain pause code' where pc: "pc = (pause, code')" by (cases pc)
  from Cons.prems pc have short: "pause < DEBOUNCE_DELAY"
    and rest: "\<forall>pause \<in> set (map fst rest). pause < DEBOUNCE_DELAY" by auto
  have "handle (Elapse pause) (updateCode code state) =
          ((updateCode code state)\<lparr> compileToState_timer := Some (DEBOUNCE_DELAY - pause, code) \<rparr>, [])"
    using short by (simp add: elapse_def updateCode_def compileToState_def)
  moreover have "updateCode code' ((updateCode code state)\<lparr> compileToState_timer := Some (DEBOUNCE_DELAY - pause, code) \<rparr>) = updateCode code' state"
    by (simp add: updateCode_absorb)
  ultimately show ?case
    using Cons.IH [OF rest, of code'] pc by simp
qed

lemma elapse_fires:
  "elapse DEBOUNCE_DELAY (updateCode code state) =
     Repl_compile code PersistState (state\<lparr> st_code := code, compileToState_timer := None \<rparr>)"
  by (simp add: elapse_def updateCode_def compileToState_def)

lemma request_config_code:
  "request_config (state\<lparr> st_code := code, compileToState_timer := t \<rparr>) babili = request_config state babili"
  by (simp add: request_config_def)

lemma Repl_compile_dispatch:
  "code \<noteq> [] \<Longrightarrow> map_of (st_plugins state) ''babili-standalone'' = Some babili \<Longrightarrow>
   Repl_compile code cb state = (state, [WorkerCompile code (request_config state babili) cb], None)"
  by (simp add: Repl_compile_def)

lemma run_rapid_edits:
  assumes "\<forall>pause \<in> set (map fst rest). pause < DEBOUNCE_DELAY"
    and "map_of (st_plugins s) ''babili-standalone'' = Some babili"
    and "last (code # map snd rest) \<noteq> []"
  shows "snd (run (Edit code # edits rest @ [Elapse DEBOUNCE_DELAY]) s) =
           [WorkerCompile (last (code # map snd rest)) (request_config s babili) PersistState]"
proof -
  let ?final = "last (code # map snd rest)"
  let ?s = "s\<lparr> st_code := ?final, compileToState_timer := None \<rparr>"
  have "map_of (st_plugins ?s) ''babili-standalone'' = Some babili"
    using assms(2) by simp
  with assms(3) have "Repl_compile ?final PersistState ?s =
      (?s, [WorkerCompile ?final (request_config ?s babili) PersistState], None)"
    by (rule Repl_compile_dispatch)
  then have "elapse DEBOUNCE_DELAY (updateCode ?final s) =
      (?s, [WorkerCompile ?final (request_config s babili) PersistState], None)"
    by (simp only: elapse_fires request_config_code)
  then have "run [Elapse DEBOUNCE_DELAY] (updateCode ?final s) =
      (?s, [WorkerCompile ?final (request_config s babili) PersistState])"
    by simp
  with run_edits [OF assms(1), of code s] show ?thesis
    by (simp add: run_append)
qed

lemma handle_PluginLoaded:
  "snd (handle (PluginLoaded success) s) = []"
  "numLoadingPlugins s = 1 \<Longrightarrow>
     handle (PluginLoaded success) s = handle (Edit (st_code s)) (s\<lparr> numLoadingPlugins := 0 \<rparr>)"
  by (simp_all add: loadPlugin_then_def Let_def)

subsection \<open>Callbacks and compile requests\<close>

lemma dispatched_append: "dispatched (xs @ ys) = dispatched xs @ dispatched ys"
  by (induction xs rule: dispatched.induct) simp_all

lemma load_unloaded_dispatched:
  "load_unloaded plugins keys n = (m, loads) \<Longrightarrow> dispatched loads = []"
proof (induction keys arbitrary: n m loads)
  case Nil
  then show ?case by simp
next
  case (Cons key keys)
  show ?case
  proof (cases "map_of plugins key")
    case None
    with Cons show ?thesis by simp
  next
    case (Some plugin)
    show ?thesis
    proof (cases "isEnabled plugin \<and> \<not> isLoaded plugin \<and> \<not> isLoading plugin")
      case True
      obtain m' loads' where rec: "load_unloaded plugins keys (n + 1) = (m', loads')"
        by (cases "load_unloaded plugins keys (n + 1)")
      with Cons.prems Some True have "loads = WorkerLoadPlugin key # loads'" by simp
      moreover from Cons.IH [OF rec] have "dispatched loads' = []" .
      ultimately show ?thesis by simp
    next
      case False
      with Cons Some show ?thesis by simp
    qed
  qed
qed

lemma checkForUnloadedPlugins_state:
  "checkForUnloadedPlugins s = (s', es) \<Longrightarrow> s' = s\<lparr> numLoadingPlugins := numLoadingPlugins s' \<rparr>"
  by (auto simp add: checkForUnloadedPlugins_def split: prod.splits)

lemma checkForUnloadedPlugins_dispatched:
  "checkForUnloadedPlugins s = (s', es) \<Longrightarrow> dispatched es = []"
  by (auto simp add: checkForUnloadedPlugins_def dispatched_append
      split: prod.splits dest: load_unloaded_dispatched)

lemma run_callback_state:
  "fst (run_callback cb s) = s\<lparr> numLoadingPlugins := numLoadingPlugins (fst (run_callback cb s)) \<rparr>"
proof (cases cb)
  case CheckForUnloadedPlugins
  obtain s' es where c: "checkForUnloadedPlugins s = (s', es)"
    by (cases "checkForUnloadedPlugins s")
  from checkForUnloadedPlugins_state [OF c] c CheckForUnloadedPlugins show ?thesis
    by (simp add: run_callback_def)
next
  case PersistState
  then show ?thesis by (simp add: run_callback_def split: prod.splits)
qed

lemma run_callback_dispatched: "dispatched (fst (snd (run_callback cb s))) = []"
proof (cases cb)
  case CheckForUnloadedPlugins
  obtain s' es where c: "checkForUnloadedPlugins s = (s', es)"
    by (cases "checkForUnloadedPlugins s")
  from checkForUnloadedPlugins_dispatched [OF c] c CheckForUnloadedPlugins show ?thesis
    by (simp add: run_callback_def)
next
  case PersistState
  then show ?thesis
    by (simp add: run_callback_def persistState_def split: option.splits)
qed

lemma run_callback_results:
  "st_compiled (fst (run_callback cb s)) = st_compiled s"
  "st_transformTime (fst (run_callback cb s)) = st_transformTime s"
  "st_ast (fst (run_callback cb s)) = st_ast s"
  "st_compileErrorMessage (fst (run_callback cb s)) = st_compileErrorMessage s"
  "st_envPresetDebugInfo (fst (run_callback cb s)) = st_envPresetDebugInfo s"
  "st_evalErrorMessage (fst (run_callback cb s)) = st_evalErrorMessage s"
  "st_sourceMap (fst (run_callback cb s)) = st_sourceMap s"
  by (subst run_callback_state, simp)+

subsection \<open>Plugin loads and toggles\<close>

lemma load_unloaded_skips:
  "map_of plugins key = Some p \<Longrightarrow> isLoaded p \<or> isLoading p \<Longrightarrow>
   load_unloaded plugins keys n = (m, loads) \<Longrightarrow> WorkerLoadPlugin key \<notin> set loads"
proof (induction keys arbitrary: n m loads)
  case Nil
  then show ?case by simp
next
  case (Cons k keys)
  show ?case
  proof (cases "map_of plugins k")
    case None
    with Cons show ?thesis by simp
  next
    case (Some plugin)
    show ?thesis
    proof (cases "isEnabled plugin \<and> \<not> isLoaded plugin \<and> \<not> isLoading plugin")
      case True
      obtain m' loads' where rec: "load_unloaded plugins keys (n + 1) = (m', loads')"
        by (cases "load_unloaded plugins keys (n + 1)")
      with Cons.prems Some True have loads: "loads = WorkerLoadPlugin k # loads'" by simp
      from Cons.prems(1,2) Some True have "k \<noteq> key" by auto
      moreover from Cons.IH [OF Cons.prems(1,2) rec] have "WorkerLoadPlugin key \<notin> set loads'" .
      ultimately show ?thesis using loads by simp
    next
      case False
      with Cons Some show ?thesis by simp
    qed
  qed
qed

lemma load_unloaded_only_loads:
  "load_unloaded plugins keys n = (m, loads) \<Longrightarrow>
   WorkerLoadEnvPreset \<notin> set loads \<and> LoadRuntimePolyfill \<notin> set loads"
proof (induction keys arbitrary: n m loads)
  case Nil
  then show ?case by simp
next
  case (Cons k keys)
  show ?case
  proof (cases "map_of plugins k")
    case None
    with Cons show ?thesis by simp
  next
    case (Some plugin)
    show ?thesis
    proof (cases "isEnabled plugin \<and> \<not> isLoaded plugin \<and> \<not> isLoading plugin")
      case True
      obtain m' loads' where rec: "load_unloaded plugins keys (n + 1) = (m', loads')"
        by (cases "load_unloaded plugins keys (n + 1)")
      with Cons.prems Some True have loads: "loads = WorkerLoadPlugin k # loads'" by simp
      with Cons.IH [OF rec] show ?thesis by simp
    next
      case False
      with Cons Some show ?thesis by simp
    qed
  qed
qed

lemma check_skips_plugin:
  assumes "map_of (st_plugins s) key = Some p" and "isLoaded p \<or> isLoading p"
  shows "WorkerLoadPlugin key \<notin> set (snd (checkForUnloadedPlugins s))"
proof -
  obtain m loads where l:
    "load_unloaded (st_plugins s) (map fst (st_plugins s)) (numLoadingPlugins s) = (m, loads)"
    by (cases "load_unloaded (st_plugins s) (map fst (st_plugins s)) (numLoadingPlugins s)")
  from load_unloaded_skips [OF assms l] l show ?thesis
    by (simp add: checkForUnloadedPlugins_def)
qed

lemma check_skips_env:
  assumes "isLoaded (st_envPresetState s)"
  shows "WorkerLoadEnvPreset \<notin> set (snd (checkForUnloadedPlugins s))"
proof -
  obtain m loads where l:
    "load_unloaded (st_plugins s) (map fst (st_plugins s)) (numLoadingPlugins s) = (m, loads)"
    by (cases "load_unloaded (st_plugins s) (map fst (st_plugins s)) (numLoadingPlugins s)")
  from load_unloaded_only_loads [OF l] l assms show ?thesis
    by (simp add: checkForUnloadedPlugins_def)
qed

lemma map_of_set_isEnabled:
  "map_of (set_isEnabled name v m) key =
     map_option (\<lambda>p. if key = name then p\<lparr> isEnabled := v \<rparr> else p) (map_of m key)"
  by (induction m) (auto simp add: set_isEnabled_def)

lemma keys_set_isEnabled: "map fst (set_isEnabled name v m) = map fst m"
  by (induction m) (auto simp add: set_isEnabled_def)

lemma check_plugins: "st_plugins (fst (checkForUnloadedPlugins s)) = st_plugins s"
  by (simp add: checkForUnloadedPlugins_def split: prod.splits)

lemma toggle_plugin:
  assumes "map_of (st_plugins s) key = Some p" and "isLoaded p"
    and "key \<noteq> ''babel-polyfill''" and "key \<notin> set state_keys"
  shows "\<exists>s' es. onSettingChange key v s = Some (s', es) \<and>
           WorkerLoadPlugin key \<notin> set es \<and>
           map_of (st_plugins s') key = Some (p\<lparr> isEnabled := v \<rparr>)"
proof -
  let ?u = "s\<lparr> st_plugins := set_isEnabled key v (st_plugins s) \<rparr>"
  from assms(1) have "key \<in> set (map fst (st_plugins s))"
    by (metis map_of_eq_None_iff option.distinct(1) set_map)
  with assms(3,4) have upd: "setting_update key v s = Some ?u"
    by (simp add: setting_update_def)
  have look: "map_of (st_plugins ?u) key = Some (p\<lparr> isEnabled := v \<rparr>)"
    using assms(1) by (simp add: map_of_set_isEnabled)
  moreover have "isLoaded (p\<lparr> isEnabled := v \<rparr>) \<or> isLoading (p\<lparr> isEnabled := v \<rparr>)"
    using assms(2) by simp
  ultimately have no: "WorkerLoadPlugin key \<notin> set (snd (checkForUnloadedPlugins ?u))"
    by (rule check_skips_plugin)
  obtain s1 es where c: "checkForUnloadedPlugins ?u = (s1, es)"
    by (cases "checkForUnloadedPlugins ?u")
  from check_plugins [of ?u] c have "st_plugins s1 = st_plugins ?u" by simp
  with look have "map_of (st_plugins (updateCode (st_code s1) s1)) key = Some (p\<lparr> isEnabled := v \<rparr>)"
    by (simp add: updateCode_def compileToState_def)
  with upd c no show ?thesis
    by (simp add: onSettingChange_def presetsUpdatedSetStateCallback_def)
qed

subsection \<open>The presets of a request\<close>

lemma presetsToArray_entries:
  assumes "distinct (map fst presets)"
  shows "presetsToArray presets =
           map (\<lambda>(key, p). config_label p) (filter (\<lambda>(key, p). isEnabled p \<and> isLoaded p) presets)"
proof -
  have look: "\<And>kp. kp \<in> set presets \<Longrightarrow> map_of presets (fst kp) = Some (snd kp)"
    using assms by simp
  have "filter (\<lambda>key. case map_of presets key of None \<Rightarrow> False | Some p \<Rightarrow> isEnabled p \<and> isLoaded p)
          (map fst presets) =
        map fst (filter (\<lambda>(key, p). isEnabled p \<and> isLoaded p) presets)"
    unfolding filter_map
    by (rule arg_cong [where f = "map fst"], rule filter_cong) (auto simp add: look)
  moreover have "map (\<lambda>key. case map_of presets key of None \<Rightarrow> [] | Some p \<Rightarrow> config_label p)
          (map fst (filter (\<lambda>(key, p). isEnabled p \<and> isLoaded p) presets)) =
        map (\<lambda>(key, p). config_label p) (filter (\<lambda>(key, p). isEnabled p \<and> isLoaded p) presets)"
    by (auto simp add: look)
  ultimately show ?thesis by (simp add: presetsToArray_def)
qed

subsection \<open>The claims about the Repl component\<close>

text \<open>
  C4, as amended. Edits that follow one another after less than \<open>DEBOUNCE_DELAY\<close>
  milliseconds each, then \<open>DEBOUNCE_DELAY\<close> milliseconds without an edit, make the
  component send exactly one compile request, for the code of the last edit (when that
  code is not empty and the plugins have the key \<^verbatim>\<open>babili-standalone\<close>). The end of a
  plugin load sends no compile request at once: when it is the last load in flight it
  does what an edit to the current code does, so its recompile waits for the same timer
  and is coalesced with edits.
\<close>

theorem debounced_recompiles:
  assumes "\<forall>pause \<in> set (map fst rest). pause < DEBOUNCE_DELAY"
    and "map_of (st_plugins s) ''babili-standalone'' = Some babili"
    and "last (code # map snd rest) \<noteq> []"
  shows "snd (run (Edit code # edits rest @ [Elapse DEBOUNCE_DELAY]) s) =
           [WorkerCompile (last (code # map snd rest)) (request_config s babili) PersistState] \<and>
         snd (handle (PluginLoaded success) s) = [] \<and>
         (numLoadingPlugins s = 1 \<longrightarrow>
            handle (PluginLoaded success) s =
              handle (Edit (st_code s)) (s\<lparr> numLoadingPlugins := 0 \<rparr>))"
  using run_rapid_edits [OF assms] handle_PluginLoaded [where success = success and s = s] by blast

theorem debounced_recompiles_witness:
  "list_all (\<lambda>pause. pause < DEBOUNCE_DELAY)
     (map fst [(100, ''co''), (120, ''con''), (90, ''cons''), (200, ''const'')]) \<and>
   map_of (st_plugins repl_load_finishing) ''babili-standalone'' = Some minify_loaded \<and>
   last (''c'' # map snd [(100, ''co''), (120, ''con''), (90, ''cons''), (200, ''const'')])
     \<noteq> [] \<and>
   numLoadingPlugins repl_load_finishing = 1 \<and>
   snd (run (Edit ''c'' #
             edits [(100, ''co''), (120, ''con''), (90, ''cons''), (200, ''const'')] @
             [Elapse DEBOUNCE_DELAY]) repl_load_finishing) =
     [WorkerCompile ''const'' sample_request PersistState] \<and>
   handle (PluginLoaded True) repl_load_finishing =
     handle (Edit (st_code repl_load_finishing))
       (repl_load_finishing\<lparr> numLoadingPlugins := 0 \<rparr>)"
proof -
  have rapid: "\<forall>pause \<in> set (map fst [(100, ''co''), (120, ''con''), (90, ''cons''),
                                        (200::nat, ''const'')]). pause < DEBOUNCE_DELAY"
    by (simp add: DEBOUNCE_DELAY_def)
  have babili:
    "map_of (st_plugins repl_load_finishing) ''babili-standalone'' = Some minify_loaded"
    by (simp add: repl_load_finishing_def repl_loaded_def)
  have final:
    "last (''c'' # map snd [(100::nat, ''co''), (120, ''con''), (90, ''cons''),
                             (200, ''const'')]) \<noteq> []"
    by simp
  have one: "numLoadingPlugins repl_load_finishing = 1"
    by (simp add: repl_load_finishing_def)
  have request: "request_config repl_load_finishing minify_loaded = sample_request"
    by (simp add: sample_request_def request_config_def repl_load_finishing_def)
  from debounced_recompiles [OF rapid babili final, where success = True]
    rapid babili final one request
  show ?thesis by (simp add: list_all_iff)
qed

theorem plugin_load_recompile_debounced_counterexample:
  "dispatched (snd (handle (PluginLoaded True) repl_load_finishing)) = [] \<and>
   dispatched (snd (run [PluginLoaded True, Elapse 100, Edit ''const y = 2'', Elapse 500]
                      repl_load_finishing)) = [''const y = 2'']"
  by (simp add: repl_load_finishing_def repl_loaded_def loadPlugin_then_def updateCode_def
      compileToState_def elapse_def DEBOUNCE_DELAY_def Repl_compile_def Let_def)

text \<open>
  C5, as amended. A compile request carries the code and the config built from the
  state, and nothing that numbers it: sending it leaves the component as it was, and the
  request is determined by the code, the callback and the state. The component applies
  every answer of the worker as it arrives: after an answer, the six result fields of
  the state are those of the answer, whatever the state held before.
\<close>

theorem responses_applied_as_they_arrive:
  "st_compiled (fst (compile_then result cb s)) = compiled result \<and>
   st_transformTime (fst (compile_then result cb s)) = transformTime result \<and>
   st_ast (fst (compile_then result cb s)) = ast result \<and>
   st_compileErrorMessage (fst (compile_then result cb s)) = compileErrorMessage result \<and>
   st_envPresetDebugInfo (fst (compile_then result cb s)) = envPresetDebugInfo result \<and>
   st_sourceMap (fst (compile_then result cb s)) = sourceMap result \<and>
   (code \<noteq> [] \<longrightarrow> fst (Repl_compile code cb s) = s) \<and>
   (code \<noteq> [] \<and> map_of (st_plugins s) ''babili-standalone'' = Some babili \<longrightarrow>
      fst (snd (Repl_compile code cb s)) = [WorkerCompile code (request_config s babili) cb])"
  by (simp add: compile_then_def run_callback_results Repl_compile_def split: option.splits)

theorem responses_applied_as_they_arrive_witness:
  "''var a'' \<noteq> [] \<and>
   map_of (st_plugins repl_loaded) ''babili-standalone'' = Some minify_loaded \<and>
   fst (Repl_compile ''var a'' PersistState repl_loaded) = repl_loaded \<and>
   fst (snd (Repl_compile ''var a'' PersistState repl_loaded)) =
     [WorkerCompile ''var a'' sample_request PersistState] \<and>
   st_compiled (fst (compile_then (caught \<lparr> err_name = ''SyntaxError'', message = ''bad'' \<rparr>)
                       PersistState repl_loaded)) = None \<and>
   st_compileErrorMessage
     (fst (compile_then (caught \<lparr> err_name = ''SyntaxError'', message = ''bad'' \<rparr>)
             PersistState repl_loaded)) = Some ''bad''"
proof -
  have code: "''var a'' \<noteq> []" by simp
  have babili: "map_of (st_plugins repl_loaded) ''babili-standalone'' = Some minify_loaded"
    by (simp add: repl_loaded_def)
  from responses_applied_as_they_arrive
    [where code = "''var a''" and cb = PersistState and s = repl_loaded
       and babili = minify_loaded
       and result = "caught \<lparr> err_name = ''SyntaxError'', message = ''bad'' \<rparr>"]
    code babili
  show ?thesis by (simp add: sample_request_def caught_def)
qed

theorem stale_answer_applied_counterexample:
  "snd (run [Edit ''var a'', Elapse 500, Edit ''var b'', Elapse 500] repl_loaded) =
     [WorkerCompile ''var a'' sample_request PersistState,
      WorkerCompile ''var b'' sample_request PersistState] \<and>
   compiled (fst (compile passthrough ''var a'' sample_request)) = Some ''var a'' \<and>
   compiled (fst (compile passthrough ''var b'' sample_request)) = Some ''var b'' \<and>
   st_code
     (fst (run [Edit ''var a'', Elapse 500, Edit ''var b'', Elapse 500,
                Answer (fst (compile passthrough ''var b'' sample_request)) PersistState,
                Answer (fst (compile passthrough ''var a'' sample_request)) PersistState]
             repl_loaded)) = ''var b'' \<and>
   st_compiled
     (fst (run [Edit ''var a'', Elapse 500, Edit ''var b'', Elapse 500,
                Answer (fst (compile passthrough ''var b'' sample_request)) PersistState,
                Answer (fst (compile passthrough ''var a'' sample_request)) PersistState]
             repl_loaded)) = Some ''var a''"
proof -
  have a: "compiled (fst (compile passthrough ''var a'' sample_request)) = Some ''var a''"
    by (simp add: compile_def passthrough_def Let_def sample_request_def request_config_def
        repl_loaded_def split: prod.splits)
  have b: "compiled (fst (compile passthrough ''var b'' sample_request)) = Some ''var b''"
    by (simp add: compile_def passthrough_def Let_def sample_request_def request_config_def
        repl_loaded_def split: prod.splits)
  have plugins: "st_plugins repl_loaded = [(''babili-standalone'', minify_loaded)]"
    by (simp add: repl_loaded_def)
  have sent: "run [Edit ''var a'', Elapse 500, Edit ''var b'', Elapse 500] repl_loaded =
      (repl_loaded\<lparr> st_code := ''var b'', compileToState_timer := None \<rparr>,
       [WorkerCompile ''var a'' sample_request PersistState,
        WorkerCompile ''var b'' sample_request PersistState])"
    by (simp add: updateCode_def compileToState_def elapse_def DEBOUNCE_DELAY_def
        Repl_compile_def plugins sample_request_def request_config_def)
  have answers:
    "run [Answer r PersistState, Answer r' PersistState]
       (repl_loaded\<lparr> st_code := ''var b'', compileToState_timer := None \<rparr>) =
     (repl_loaded\<lparr> st_code := ''var b'', compileToState_timer := None,
        st_compiled := compiled r', st_transformTime := transformTime r',
        st_ast := ast r', st_compileErrorMessage := compileErrorMessage r',
        st_envPresetDebugInfo := envPresetDebugInfo r', st_sourceMap := sourceMap r' \<rparr>,
      [Persist, Persist])" for r r'
    by (simp add: compile_then_def run_callback_def persistState_def plugins)
  have "run ([Edit ''var a'', Elapse 500, Edit ''var b'', Elapse 500] @
             [Answer (fst (compile passthrough ''var b'' sample_request)) PersistState,
              Answer (fst (compile passthrough ''var a'' sample_request)) PersistState])
          repl_loaded =
     (case run [Edit ''var a'', Elapse 500, Edit ''var b'', Elapse 500] repl_loaded of
        (state', out) \<Rightarrow>
          (case run [Answer (fst (compile passthrough ''var b'' sample_request)) PersistState,
                     Answer (fst (compile passthrough ''var a'' sample_request)) PersistState]
                  state' of
             (state'', out') \<Rightarrow> (state'', out @ out')))"
    by (rule run_append)
  also have "\<dots> =
     (repl_loaded\<lparr> st_code := ''var b'', compileToState_timer := None,
        st_compiled := Some ''var a'',
        st_transformTime := transformTime (fst (compile passthrough ''var a'' sample_request)),
        st_ast := ast (fst (compile passthrough ''var a'' sample_request)),
        st_compileErrorMessage :=
          compileErrorMessage (fst (compile passthrough ''var a'' sample_request)),
        st_envPresetDebugInfo :=
          envPresetDebugInfo (fst (compile passthrough ''var a'' sample_request)),
        st_sourceMap := sourceMap (fst (compile passthrough ''var a'' sample_request)) \<rparr>,
      [WorkerCompile ''var a'' sample_request PersistState,
       WorkerCompile ''var b'' sample_request PersistState, Persist, Persist])"
    by (simp only: sent answers a prod.case append.simps)
  finally have "run [Edit ''var a'', Elapse 500, Edit ''var b'', Elapse 500,
             Answer (fst (compile passthrough ''var b'' sample_request)) PersistState,
             Answer (fst (compile passthrough ''var a'' sample_request)) PersistState]
          repl_loaded =
     (repl_loaded\<lparr> st_code := ''var b'', compileToState_timer := None,
        st_compiled := Some ''var a'',
        st_transformTime := transformTime (fst (compile passthrough ''var a'' sample_request)),
        st_ast := ast (fst (compile passthrough ''var a'' sample_request)),
        st_compileErrorMessage :=
          compileErrorMessage (fst (compile passthrough ''var a'' sample_request)),
        st_envPresetDebugInfo :=
          envPresetDebugInfo (fst (compile passthrough ''var a'' sample_request)),
        st_sourceMap := sourceMap (fst (compile passthrough ''var a'' sample_request)) \<rparr>,
      [WorkerCompile ''var a'' sample_request PersistState,
       WorkerCompile ''var b'' sample_request PersistState, Persist, Persist])"
    by (simp only: append.simps)
  then show ?thesis using sent a b by simp
qed

text \<open>
  What holds of the check: \<^verbatim>\<open>_checkForUnloadedPlugins\<close> sends no load request to the
  worker for an entry of the state's \<open>plugins\<close> that is loaded or is loading, and none for
  the env preset when that is loaded. Switching a loaded entry of \<open>plugins\<close> off and on
  again with \<^verbatim>\<open>_onSettingChange\<close> sends no load request for it and leaves it enabled
  and loaded.
\<close>

lemma plugins_entry_not_reloaded:
  "(map_of (st_plugins s) key = Some p \<and> (isLoaded p \<or> isLoading p) \<longrightarrow>
      WorkerLoadPlugin key \<notin> set (snd (checkForUnloadedPlugins s))) \<and>
   (isLoaded (st_envPresetState s) \<longrightarrow>
      WorkerLoadEnvPreset \<notin> set (snd (checkForUnloadedPlugins s))) \<and>
   (map_of (st_plugins s) key = Some p \<and> isLoaded p \<and>
    key \<noteq> ''babel-polyfill'' \<and> key \<notin> set state_keys \<longrightarrow>
      (\<exists>s_off es_off s_on es_on.
         onSettingChange key False s = Some (s_off, es_off) \<and>
         onSettingChange key True s_off = Some (s_on, es_on) \<and>
         WorkerLoadPlugin key \<notin> set (es_off @ es_on) \<and>
         map_of (st_plugins s_on) key = Some (p\<lparr> isEnabled := True \<rparr>)))"
proof (intro conjI impI)
  assume "map_of (st_plugins s) key = Some p \<and> (isLoaded p \<or> isLoading p)"
  then show "WorkerLoadPlugin key \<notin> set (snd (checkForUnloadedPlugins s))"
    using check_skips_plugin by blast
next
  assume "isLoaded (st_envPresetState s)"
  then show "WorkerLoadEnvPreset \<notin> set (snd (checkForUnloadedPlugins s))"
    by (rule check_skips_env)
next
  assume a: "map_of (st_plugins s) key = Some p \<and> isLoaded p \<and>
    key \<noteq> ''babel-polyfill'' \<and> key \<notin> set state_keys"
  then obtain s_off es_off where off: "onSettingChange key False s = Some (s_off, es_off)"
    "WorkerLoadPlugin key \<notin> set es_off"
    "map_of (st_plugins s_off) key = Some (p\<lparr> isEnabled := False \<rparr>)"
    using toggle_plugin [of s key p False] by blast
  from a have "isLoaded (p\<lparr> isEnabled := False \<rparr>)" by simp
  with off(3) a obtain s_on es_on where on: "onSettingChange key True s_off = Some (s_on, es_on)"
    "WorkerLoadPlugin key \<notin> set es_on"
    "map_of (st_plugins s_on) key = Some (p\<lparr> isEnabled := False, isEnabled := True \<rparr>)"
    using toggle_plugin [of s_off key "p\<lparr> isEnabled := False \<rparr>" True] by blast
  from off on show "\<exists>s_off es_off s_on es_on.
         onSettingChange key False s = Some (s_off, es_off) \<and>
         onSettingChange key True s_off = Some (s_on, es_on) \<and>
         WorkerLoadPlugin key \<notin> set (es_off @ es_on) \<and>
         map_of (st_plugins s_on) key = Some (p\<lparr> isEnabled := True \<rparr>)"
    by auto
qed

lemma plugins_entry_not_reloaded_sample:
  "map_of (st_plugins repl_loaded) ''babili-standalone'' = Some minify_loaded \<and>
   isLoaded minify_loaded \<and>
   isLoaded (st_envPresetState repl_loaded) \<and>
   ''babili-standalone'' \<notin> set state_keys \<and>
   WorkerLoadPlugin ''babili-standalone'' \<notin> set (snd (checkForUnloadedPlugins repl_loaded)) \<and>
   WorkerLoadEnvPreset \<notin> set (snd (checkForUnloadedPlugins repl_loaded)) \<and>
   (\<exists>s_off es_off s_on es_on.
      onSettingChange ''babili-standalone'' False repl_loaded = Some (s_off, es_off) \<and>
      onSettingChange ''babili-standalone'' True s_off = Some (s_on, es_on) \<and>
      WorkerLoadPlugin ''babili-standalone'' \<notin> set (es_off @ es_on) \<and>
      map_of (st_plugins s_on) ''babili-standalone'' =
        Some (minify_loaded\<lparr> isEnabled := True \<rparr>))"
proof -
  have entry: "map_of (st_plugins repl_loaded) ''babili-standalone'' = Some minify_loaded"
    by (simp add: repl_loaded_def)
  have loaded: "isLoaded minify_loaded"
    by (simp add: minify_loaded_def)
  have env: "isLoaded (st_envPresetState repl_loaded)"
    by (simp add: repl_loaded_def)
  have name: "''babili-standalone'' \<noteq> ''babel-polyfill''"
    by simp
  have key: "''babili-standalone'' \<notin> set state_keys"
    by (simp add: state_keys_def)
  from plugins_entry_not_reloaded [of repl_loaded "''babili-standalone''" minify_loaded]
    entry loaded env name key
  show ?thesis by blast
qed

text \<open>
  C8. The loop over \<open>plugins\<close> (line 265) skips a plugin that is loaded or loading; the
  branch for the env preset (line 321) tests \<open>isLoaded\<close> only. With the env preset enabled
  and its load in flight, the check sends a new load request for it to the worker, and so
  does every change of a setting, since \<^verbatim>\<open>_onSettingChange\<close> runs the check.
\<close>

theorem env_preset_requested_while_loading:
  "isEnvPresetEnabled (st_envConfig repl_env_loading) \<and>
   isLoading (st_envPresetState repl_env_loading) \<and>
   snd (checkForUnloadedPlugins repl_env_loading) = [WorkerLoadEnvPreset] \<and>
   map_option snd (onSettingChange ''lineWrap'' True repl_env_loading) =
     Some [WorkerLoadEnvPreset]"
  by (simp add: repl_env_loading_def repl_loaded_def env_ie11_def minify_loaded_def
      checkForUnloadedPlugins_def onSettingChange_def setting_update_def state_keys_def
      set_flag_def presetsUpdatedSetStateCallback_def)

text \<open>
  C9. For non-empty code (and plugins that have the key \<^verbatim>\<open>babili-standalone\<close>),
  \<^verbatim>\<open>_compile\<close> sends one compile request, whatever loads have failed. Its presets are
  the labels of the presets that are both enabled and loaded, in the order of the state
  (a preset that is enabled and not loaded is left out), followed by \<^verbatim>\<open>"babili"\<close> when
  the minifier plugin is both enabled and loaded. The worker adds the env preset to this
  list exactly when the env preset is loaded and enabled in the env config.
\<close>

theorem request_presets:
  assumes "code \<noteq> []"
    and "map_of (st_plugins s) ''babili-standalone'' = Some babili"
    and "distinct (map fst (st_presets s))"
  shows "Repl_compile code cb s =
           (s, [WorkerCompile code (request_config s babili) cb], None) \<and>
         cfg_presets (request_config s babili) =
           map (\<lambda>(key, p). Name (config_label p))
             (filter (\<lambda>(key, p). isEnabled p \<and> isLoaded p) (st_presets s)) @
           (if isEnabled babili \<and> isLoaded babili then [Name ''babili''] else []) \<and>
         opt_presets (babel_options (push_env_preset (request_config s babili))) =
           cfg_presets (request_config s babili) @
           (if isLoaded (st_envPresetState s) \<and> isEnvPresetEnabled (st_envConfig s)
            then [WithOptions ''env'' (compile_options (request_config s babili) (st_envConfig s))]
            else [])"
proof (intro conjI)
  show "Repl_compile code cb s = (s, [WorkerCompile code (request_config s babili) cb], None)"
    using assms(1,2) by (rule Repl_compile_dispatch)
next
  show "cfg_presets (request_config s babili) =
           map (\<lambda>(key, p). Name (config_label p))
             (filter (\<lambda>(key, p). isEnabled p \<and> isLoaded p) (st_presets s)) @
           (if isEnabled babili \<and> isLoaded babili then [Name ''babili''] else [])"
    by (simp add: request_config_def presetsToArray_entries [OF assms(3)] split_def comp_def)
next
  show "opt_presets (babel_options (push_env_preset (request_config s babili))) =
           cfg_presets (request_config s babili) @
           (if isLoaded (st_envPresetState s) \<and> isEnvPresetEnabled (st_envConfig s)
            then [WithOptions ''env'' (compile_options (request_config s babili) (st_envConfig s))]
            else [])"
    by (simp add: babel_options_def push_env_preset_def request_config_def)
qed

theorem request_presets_witness:
  "''const x = 1'' \<noteq> [] \<and>
   map_of (st_plugins repl_loaded) ''babili-standalone'' = Some minify_loaded \<and>
   distinct (map fst (st_presets repl_loaded)) \<and>
   Repl_compile ''const x = 1'' PersistState repl_loaded =
     (repl_loaded, [WorkerCompile ''const x = 1'' sample_request PersistState], None) \<and>
   cfg_presets sample_request = [Name ''es2015'', Name ''babili'']"
proof -
  have code: "''const x = 1'' \<noteq> []" by simp
  have babili: "map_of (st_plugins repl_loaded) ''babili-standalone'' = Some minify_loaded"
    by (simp add: repl_loaded_def)
  have keys: "distinct (map fst (st_presets repl_loaded))"
    by (simp add: repl_loaded_def)
  have presets:
    "map (\<lambda>(key, p). Name (config_label p))
       (filter (\<lambda>(key, p). isEnabled p \<and> isLoaded p) (st_presets repl_loaded)) @
     (if isEnabled minify_loaded \<and> isLoaded minify_loaded then [Name ''babili''] else []) =
     [Name ''es2015'', Name ''babili'']"
    by (simp add: repl_loaded_def minify_loaded_def)
  from request_presets [OF code babili keys, of PersistState] code babili keys presets
  show ?thesis by (simp add: sample_request_def)
qed

text \<open>
  C10. Called with the empty string, \<^verbatim>\<open>_compile\<close> sends no compile request to the
  worker and leaves \<open>compiled\<close>, \<open>ast\<close>, \<open>transformTime\<close>, \<open>compileErrorMessage\<close>,
  \<open>envPresetDebugInfo\<close>, \<open>evalErrorMessage\<close> and \<open>sourceMap\<close> null.
\<close>

theorem empty_code_resets:
  "dispatched (fst (snd (Repl_compile [] cb s))) = [] \<and>
   st_compiled (fst (Repl_compile [] cb s)) = None \<and>
   st_ast (fst (Repl_compile [] cb s)) = None \<and>
   st_transformTime (fst (Repl_compile [] cb s)) = None \<and>
   st_compileErrorMessage (fst (Repl_compile [] cb s)) = None \<and>
   st_envPresetDebugInfo (fst (Repl_compile [] cb s)) = None \<and>
   st_evalErrorMessage (fst (Repl_compile [] cb s)) = None \<and>
   st_sourceMap (fst (Repl_compile [] cb s)) = None"
  by (simp add: Repl_compile_def run_callback_results run_callback_dispatched)

theorem empty_code_resets_witness:
  "st_compiled repl_loaded = Some ''var x = 1;'' \<and>
   dispatched (fst (snd (Repl_compile [] PersistState repl_loaded))) = [] \<and>
   st_compiled (fst (Repl_compile [] PersistState repl_loaded)) = None \<and>
   st_ast (fst (Repl_compile [] PersistState repl_loaded)) = None \<and>
   st_transformTime (fst (Repl_compile [] PersistState repl_loaded)) = None"
proof -
  have before: "st_compiled repl_loaded = Some ''var x = 1;''"
    by (simp add: repl_loaded_def)
  from empty_code_resets [of PersistState repl_loaded] before
  show ?thesis by simp
qed

end
